theory Spec2Isabelle
  imports Complex_Main "HOL-Library.Word"
begin

section \<open>JavaScript strings\<close>

text \<open>
  A JavaScript string is a sequence of 16-bit code units, and \<open>.length\<close> counts code
  units. \<open>js\<close> turns an ASCII literal into such a string, for concrete inputs.
\<close>

type_synonym jschar = "16 word"
type_synonym jsstring = "jschar list"

definition js :: "string \<Rightarrow> jsstring" where
  "js s = map (\<lambda>c. of_nat (of_char c)) s"

text \<open>
  The code units that \<open>String.prototype.trim\<close> strips and that the regular expression
  class \<open>\s\<close> matches: ECMAScript's WhiteSpace and LineTerminator.
\<close>

definition isWhiteSpace :: "jschar \<Rightarrow> bool" where
  "isWhiteSpace c \<longleftrightarrow>
     c = 0x0009 \<or> c = 0x000A \<or> c = 0x000B \<or> c = 0x000C \<or> c = 0x000D \<or> c = 0x0020 \<or>
     c = 0x00A0 \<or> c = 0x1680 \<or> (0x2000 \<le> c \<and> c \<le> 0x200A) \<or> c = 0x2028 \<or>
     c = 0x2029 \<or> c = 0x202F \<or> c = 0x205F \<or> c = 0x3000 \<or> c = 0xFEFF"

definition trim :: "jsstring \<Rightarrow> jsstring" where
  "trim s = rev (dropWhile isWhiteSpace (rev (dropWhile isWhiteSpace s)))"

text \<open>The character class \<open>[.!?]\<close>.\<close>

definition isSentenceEnd :: "jschar \<Rightarrow> bool" where
  "isSentenceEnd c \<longleftrightarrow> c = 0x2E \<or> c = 0x21 \<or> c = 0x3F"

text \<open>
  ECMAScript's LineTerminator (what \<open>.\<close> does not match and where \<open>$\<close> matches under
  the flag \<open>m\<close>), the word characters of \<open>\b\<close>, and the class \<open>[A-Z]\<close>.
\<close>

definition isLineTerminator :: "jschar \<Rightarrow> bool" where
  "isLineTerminator c \<longleftrightarrow> c = 0x000A \<or> c = 0x000D \<or> c = 0x2028 \<or> c = 0x2029"

definition isWordChar :: "jschar \<Rightarrow> bool" where
  "isWordChar c \<longleftrightarrow> (0x41 \<le> c \<and> c \<le> 0x5A) \<or> (0x61 \<le> c \<and> c \<le> 0x7A)
     \<or> (0x30 \<le> c \<and> c \<le> 0x39) \<or> c = 0x5F"

definition isUpperAZ :: "jschar \<Rightarrow> bool" where
  "isUpperAZ c \<longleftrightarrow> 0x41 \<le> c \<and> c \<le> 0x5A"

section \<open>TTSService (src/unnamed/part_003)\<close>

text \<open>
  \<open>TTSConfig\<close> is imported from \<open>../Types\<close>; its fields are the ones the constructor
  of \<open>TTSService\<close> fills in. The optional \<open>voice\<close> plays no part below. JavaScript
  numbers other than NaN are real numbers, and \<open>Math.max\<close> and \<open>Math.min\<close> are the
  maximum and minimum of the real order on them.
\<close>

record TTSConfig =
  enabled :: bool
  rate :: real
  pitch :: real
  volume :: real

text \<open>
  A call that \<open>speakLongText\<close> awaits: \<open>this.speak(chunk)\<close> or \<open>this.delay(ms)\<close>.
\<close>

datatype speech_step = Speak jsstring | Delay nat

text \<open>
  The service holds its configuration, whether \<open>window.speechSynthesis\<close> exists, and the
  utterance it is speaking. \<open>synthQueue\<close> is the platform's utterance queue, holding the
  texts of the utterances: \<open>synthesis.speak\<close> appends to it, \<open>synthesis.cancel\<close> empties
  it, an utterance that ends leaves it, and \<open>synthesis.speaking\<close> is true while it is not
  empty. The last three fields are the state of one call of \<open>speakLongText\<close>: the calls
  it has still to await, the first of them being the one it is waiting for; the deadline
  of the pending \<open>delay\<close>; and the outcome of its promise (\<open>None\<close> while pending,
  \<open>Some True\<close> resolved, \<open>Some False\<close> rejected).
\<close>

record TTSService =
  config :: TTSConfig
  synthesis :: bool
  currentUtterance :: "jsstring option"
  synthQueue :: "jsstring list"
  pendingSteps :: "speech_step list"
  delayTimer :: "nat option"
  longTextResult :: "bool option"

definition tts_stop :: "TTSService \<Rightarrow> TTSService" where
  "tts_stop t =
     (if synthesis t then t\<lparr>synthQueue := [], currentUtterance := None\<rparr> else t)"

definition tts_isSpeaking :: "TTSService \<Rightarrow> bool" where
  "tts_isSpeaking t \<longleftrightarrow> synthesis t \<and> synthQueue t \<noteq> []"

definition setRate :: "real \<Rightarrow> TTSService \<Rightarrow> TTSService" where
  "setRate r t = t\<lparr>config := (config t)\<lparr>rate := max 0.1 (min 10 r)\<rparr>\<rparr>"

definition setPitch :: "real \<Rightarrow> TTSService \<Rightarrow> TTSService" where
  "setPitch p t = t\<lparr>config := (config t)\<lparr>pitch := max 0 (min 2 p)\<rparr>\<rparr>"

definition setVolume :: "real \<Rightarrow> TTSService \<Rightarrow> TTSService" where
  "setVolume v t = t\<lparr>config := (config t)\<lparr>volume := max 0 (min 1 v)\<rparr>\<rparr>"

subsection \<open>cleanTextForSpeech and speak\<close>

text \<open>
  \<open>text.replace(re, replacement)\<close> for a global regular expression: the text is scanned
  from the left, a match is replaced and the scan goes on after it, a character where no
  match starts is kept. A matcher is the expression matched at one position: it gets the
  character before the position (for \<open>\b\<close>) and the text from the position on, and
  gives the replacement and the text after the match. Every expression below matches at
  least one character; the test on the lengths says so to the termination proof.
\<close>

type_synonym matcher = "jschar option \<Rightarrow> jsstring \<Rightarrow> (jsstring \<times> jsstring) option"

function replaceAll :: "matcher \<Rightarrow> jschar option \<Rightarrow> jsstring \<Rightarrow> jsstring" where
  "replaceAll m prev [] = []"
| "replaceAll m prev (c # cs) =
     (case m prev (c # cs) of
        None \<Rightarrow> c # replaceAll m (Some c) cs
      | Some (rep, rest) \<Rightarrow>
          if length rest < length (c # cs)
          then rep @ replaceAll m (Some ((c # cs) ! (length cs - length rest))) rest
          else c # replaceAll m (Some c) cs)"
  by pat_completeness auto
termination
  by (relation "measure (\<lambda>(m, prev, s). length s)") auto

text \<open>
  \<open>/\*\*(.*?)\*\*/\<close>, \<open>/\*(.*?)\*/\<close> and the same with a backquote, replaced by
  \<open>$1\<close>: the delimiter \<open>d\<close>, the shortest run of characters other than line
  terminators that is followed by \<open>d\<close>, and \<open>d\<close>.
\<close>

fun findClose :: "jsstring \<Rightarrow> jsstring \<Rightarrow> jsstring \<Rightarrow> (jsstring \<times> jsstring) option" where
  "findClose d acc [] = None"
| "findClose d acc (c # cs) =
     (if take (length d) (c # cs) = d then Some (acc, drop (length d) (c # cs))
      else if isLineTerminator c then None
      else findClose d (acc @ [c]) cs)"

definition matchDelimited :: "jsstring \<Rightarrow> matcher" where
  "matchDelimited d prev s =
     (if take (length d) s = d then findClose d [] (drop (length d) s) else None)"

text \<open>
  \<open>/#{1,6}\s*(.*?)$/gm\<close>, replaced by \<open>$1\<close>: up to six \<open>#\<close>, the white space after
  them, and the rest of the line, which is kept.
\<close>

definition matchHeading :: matcher where
  "matchHeading prev s =
     (case s of
        [] \<Rightarrow> None
      | c # cs \<Rightarrow>
          if c = 0x23
          then (let n = min 6 (length (takeWhile (\<lambda>x. x = 0x23) s));
                    r = dropWhile isWhiteSpace (drop n s)
                in Some (takeWhile (\<lambda>x. \<not> isLineTerminator x) r,
                         dropWhile (\<lambda>x. \<not> isLineTerminator x) r))
          else None)"

text \<open>
  \<open>/\bw\b/\<close> for a word \<open>w\<close> of word characters, and \<open>/\bw/\<close> for an abbreviation
  \<open>w\<close> that starts with a word character and ends with a full stop.
\<close>

definition boundaryBefore :: "jschar option \<Rightarrow> bool" where
  "boundaryBefore prev = (case prev of None \<Rightarrow> True | Some p \<Rightarrow> \<not> isWordChar p)"

definition boundaryAfter :: "jsstring \<Rightarrow> bool" where
  "boundaryAfter rest = (case rest of [] \<Rightarrow> True | x # xs \<Rightarrow> \<not> isWordChar x)"

definition matchWord :: "jsstring \<Rightarrow> jsstring \<Rightarrow> matcher" where
  "matchWord w rep prev s =
     (if take (length w) s = w \<and> boundaryBefore prev \<and> boundaryAfter (drop (length w) s)
      then Some (rep, drop (length w) s) else None)"

definition matchAbbrev :: "jsstring \<Rightarrow> jsstring \<Rightarrow> matcher" where
  "matchAbbrev w rep prev s =
     (if take (length w) s = w \<and> boundaryBefore prev
      then Some (rep, drop (length w) s) else None)"

text \<open>\<open>/([.!?])\s*([A-Z])/\<close>, replaced by \<open>$1 $2\<close>, and \<open>/\s+/\<close>, replaced by a space.\<close>

definition matchSentenceGap :: matcher where
  "matchSentenceGap prev s =
     (case s of
        [] \<Rightarrow> None
      | p # r \<Rightarrow>
          if isSentenceEnd p
          then (case dropWhile isWhiteSpace r of
                  [] \<Rightarrow> None
                | u # rest \<Rightarrow> if isUpperAZ u then Some ([p, 0x20, u], rest) else None)
          else None)"

definition matchSpaces :: matcher where
  "matchSpaces prev s =
     (case s of
        [] \<Rightarrow> None
      | c # cs \<Rightarrow> if isWhiteSpace c then Some ([0x20], dropWhile isWhiteSpace cs) else None)"

text \<open>The replacements of \<open>cleanTextForSpeech\<close>, in the order of the source.\<close>

definition cleanRules :: "matcher list" where
  "cleanRules =
     [matchDelimited (js ''**''), matchDelimited (js ''*''), matchDelimited (js ''`''),
      matchHeading,
      matchWord (js ''UI'') (js ''User Interface''),
      matchWord (js ''UX'') (js ''User Experience''),
      matchWord (js ''API'') (js ''A P I''),
      matchWord (js ''HTML'') (js ''H T M L''),
      matchWord (js ''CSS'') (js ''C S S''),
      matchWord (js ''JS'') (js ''JavaScript''),
      matchWord (js ''vs'') (js ''versus''),
      matchAbbrev (js ''e.g.'') (js ''for example''),
      matchAbbrev (js ''i.e.'') (js ''that is''),
      matchAbbrev (js ''etc.'') (js ''and so on''),
      matchSentenceGap, matchSpaces]"

definition cleanTextForSpeech :: "jsstring \<Rightarrow> jsstring" where
  "cleanTextForSpeech text = trim (foldl (\<lambda>s m. replaceAll m None s) text cleanRules)"

text \<open>
  \<open>speak(text)\<close>: \<open>None\<close> when it returns without speaking (its promise is resolved at
  once); otherwise it stops what is being spoken and hands the platform an utterance of
  the cleaned text, and its promise waits for the end or the error of that utterance.
\<close>

definition tts_speak :: "jsstring \<Rightarrow> TTSService \<Rightarrow> TTSService option" where
  "tts_speak text t =
     (if \<not> enabled (config t) then None
      else if \<not> synthesis t then None
      else if trim text = [] then None
      else
        let t1 = tts_stop t;
            u = cleanTextForSpeech text
        in Some (t1\<lparr>currentUtterance := Some u, synthQueue := synthQueue t1 @ [u]\<rparr>))"

subsection \<open>Chunked speech\<close>

text \<open>
  \<open>matchSeparator s\<close> is the regular expression \<open>[.!?]+\s+\<close> matched at the start of
  \<open>s\<close>: the matched text and what follows it. The two classes are disjoint, so the greedy
  match is the longest run of sentence-end marks followed by the longest run of white
  space, and backtracking finds nothing else.
\<close>

definition matchSeparator :: "jsstring \<Rightarrow> (jsstring \<times> jsstring) option" where
  "matchSeparator s =
     (let p = takeWhile isSentenceEnd s;
          r = dropWhile isSentenceEnd s;
          w = takeWhile isWhiteSpace r
      in if p \<noteq> [] \<and> w \<noteq> [] then Some (p @ w, dropWhile isWhiteSpace r) else None)"

text \<open>
  \<open>text.split(/([.!?]+\s+)/)\<close>: the pieces between the matches, with each match (the
  capture group) kept as an element of its own. \<open>splitAux piece s\<close> scans \<open>s\<close> with
  \<open>piece\<close> the text read since the last match.
\<close>

function splitAux :: "jsstring \<Rightarrow> jsstring \<Rightarrow> jsstring list" where
  "splitAux piece [] = [piece]"
| "splitAux piece (c # cs) =
     (case matchSeparator (c # cs) of
        Some (sep, rest) \<Rightarrow> piece # sep # splitAux [] rest
      | None \<Rightarrow> splitAux (piece @ [c]) cs)"
  by pat_completeness auto
termination
proof (relation "measure (\<lambda>(piece, s). length s)")
  show "wf (measure (\<lambda>(piece, s). length s))" by simp
next
  fix piece :: jsstring and c cs x2 sep rest
  assume m: "matchSeparator (c # cs) = Some x2" and x: "(sep, rest) = x2"
  from m x have p: "takeWhile isSentenceEnd (c # cs) \<noteq> []"
    and r: "rest = dropWhile isWhiteSpace (dropWhile isSentenceEnd (c # cs))"
    by (auto simp: matchSeparator_def Let_def split: if_splits)
  from p have "length (dropWhile isSentenceEnd (c # cs)) \<le> length cs"
    by (auto simp: length_dropWhile_le split: if_splits)
  moreover have "length rest \<le> length (dropWhile isSentenceEnd (c # cs))"
    unfolding r by (rule length_dropWhile_le)
  ultimately show "(([], rest), (piece, c # cs)) \<in> measure (\<lambda>(piece, s). length s)"
    by simp
next
  fix piece :: jsstring and c cs
  show "((piece @ [c], cs), (piece, c # cs)) \<in> measure (\<lambda>(piece, s). length s)"
    by simp
qed

definition splitIntoSentences :: "jsstring \<Rightarrow> jsstring list" where
  "splitIntoSentences text = filter (\<lambda>part. length (trim part) > 0) (splitAux [] text)"

text \<open>
  \<open>speakLongText\<close> awaits \<open>speak\<close> and \<open>delay\<close> in turn. \<open>speakLongText t text k\<close> is
  the list of the calls it awaits, in order, when none of them fails: \<open>Speak c\<close> is the
  call \<open>this.speak(c)\<close>, whose utterance is \<open>cleanTextForSpeech c\<close>. \<open>chunkLoop\<close> is the
  \<open>for\<close> loop with the flush that follows it, \<open>cur\<close> being \<open>currentChunk\<close>.
\<close>

fun chunkLoop :: "real \<Rightarrow> jsstring \<Rightarrow> jsstring list \<Rightarrow> speech_step list" where
  "chunkLoop chunkSize cur [] = (if trim cur \<noteq> [] then [Speak (trim cur)] else [])"
| "chunkLoop chunkSize cur (sentence # rest) =
     (if real (length cur + length sentence) > chunkSize
      then (if trim cur \<noteq> [] then [Speak (trim cur), Delay 300] else [])
             @ chunkLoop chunkSize sentence rest
      else chunkLoop chunkSize (cur @ (if cur \<noteq> [] then js '' '' else []) @ sentence) rest)"

definition speakLongText :: "TTSService \<Rightarrow> jsstring \<Rightarrow> real \<Rightarrow> speech_step list" where
  "speakLongText t text chunkSize =
     (if \<not> enabled (config t) then []
      else if trim text = [] then []
      else chunkLoop chunkSize [] (splitIntoSentences text))"

text \<open>
  The call of \<open>speakLongText\<close> as it runs. \<open>advance now steps t\<close> runs the function from
  the call \<open>hd steps\<close> on, up to the next call whose promise is pending: a \<open>speak\<close> that
  returns without speaking is passed over, and with no call left the promise of
  \<open>speakLongText\<close> is resolved. The state holds one call: \<open>startLongText\<close> is the call
  made on a service on which no other call of \<open>speakLongText\<close> is pending.
\<close>

fun advance :: "nat \<Rightarrow> speech_step list \<Rightarrow> TTSService \<Rightarrow> TTSService" where
  "advance now [] t = t\<lparr>pendingSteps := [], longTextResult := Some True\<rparr>"
| "advance now (Speak c # rest) t =
     (case tts_speak c t of
        None \<Rightarrow> advance now rest t
      | Some t1 \<Rightarrow> t1\<lparr>pendingSteps := Speak c # rest\<rparr>)"
| "advance now (Delay d # rest) t =
     t\<lparr>pendingSteps := Delay d # rest, delayTimer := Some (now + d)\<rparr>"

definition startLongText :: "nat \<Rightarrow> jsstring \<Rightarrow> real \<Rightarrow> TTSService \<Rightarrow> TTSService" where
  "startLongText now text chunkSize t =
     advance now (speakLongText t text chunkSize) (t\<lparr>longTextResult := None\<rparr>)"

text \<open>
  What happens to a running call: the utterance it waits for ends (\<open>onend\<close> resolves the
  promise of \<open>speak\<close>) or fails (\<open>onerror\<close>, or \<open>synthesis.speak\<close> throwing, rejects
  it, and \<open>speakLongText\<close> rejects in turn), the delay runs out, or \<open>stop()\<close> is called.
  After \<open>synthesis.cancel()\<close> the platform reports the cancelled utterance's end or
  error as it sees fit; both are events here.
\<close>

datatype tts_event = T_UtteranceEnd | T_UtteranceError | T_DelayFire | T_Stop

fun tts_step :: "nat \<Rightarrow> tts_event \<Rightarrow> TTSService \<Rightarrow> TTSService" where
  "tts_step now T_UtteranceEnd t =
     (let t1 = t\<lparr>currentUtterance := None, synthQueue := tl (synthQueue t)\<rparr>
      in case pendingSteps t1 of
           Speak c # rest \<Rightarrow> advance now rest t1
         | _ \<Rightarrow> t1)"
| "tts_step now T_UtteranceError t =
     (let t1 = t\<lparr>currentUtterance := None, synthQueue := tl (synthQueue t)\<rparr>
      in case pendingSteps t1 of
           Speak c # rest \<Rightarrow> t1\<lparr>pendingSteps := [], longTextResult := Some False\<rparr>
         | _ \<Rightarrow> t1)"
| "tts_step now T_DelayFire t =
     (case delayTimer t of
        None \<Rightarrow> t
      | Some dl \<Rightarrow>
          if dl \<le> now
          then (let t1 = t\<lparr>delayTimer := None\<rparr>
                in case pendingSteps t1 of
                     Delay d # rest \<Rightarrow> advance now rest t1
                   | _ \<Rightarrow> t1)
          else t)"
| "tts_step now T_Stop t = tts_stop t"

fun tts_run :: "(nat \<times> tts_event) list \<Rightarrow> TTSService \<Rightarrow> TTSService" where
  "tts_run [] t = t"
| "tts_run ((now, e) # evs) t = tts_run evs (tts_step now e t)"

section \<open>Recognition results\<close>

text \<open>
  A \<open>result\<close> event of the platform recognizer: \<open>event.results\<close>, of which the
  handlers read \<open>[i][0].transcript\<close> and \<open>[i].isFinal\<close>, and \<open>event.resultIndex\<close>.
\<close>

record SpeechResult =
  transcript :: jsstring
  isFinal :: bool

record ResultEvent =
  resultIndex :: nat
  results :: "SpeechResult list"

text \<open>
  The loop of the \<open>onresult\<close> handlers over the results: the interim and the final
  text, each the concatenation of its transcripts.
\<close>

fun collectResults :: "SpeechResult list \<Rightarrow> jsstring \<Rightarrow> jsstring \<Rightarrow> jsstring \<times> jsstring" where
  "collectResults [] interim final = (interim, final)"
| "collectResults (r # rs) interim final =
     (if isFinal r then collectResults rs interim (final @ transcript r)
      else collectResults rs (interim @ transcript r) final)"

definition interimOf :: "ResultEvent \<Rightarrow> jsstring" where
  "interimOf ev = fst (collectResults (drop (resultIndex ev) (results ev)) [] [])"

definition newFinalOf :: "ResultEvent \<Rightarrow> jsstring" where
  "newFinalOf ev = snd (collectResults (drop (resultIndex ev) (results ev)) [] [])"

section \<open>Timers and time\<close>

text \<open>
  Every handler runs at a time \<open>now\<close>, in milliseconds. \<open>setTimeout(f, d)\<close> called at
  \<open>now\<close> is the deadline \<open>now + d\<close>; a timer field is \<open>Some\<close> deadline while its timeout
  is pending and \<open>None\<close> otherwise (a handle of a timeout that has fired or was cleared
  behaves as \<open>null\<close>: clearing it does nothing). A timeout that is never cleared is an
  entry of a list of deadlines. A timer callback runs only when its timeout is pending and
  due. Where the source assigns a new timeout to a field without clearing the old one
  (\<open>startTimers\<close>, \<open>startTimeout\<close>, \<open>startListening\<close>), the old one is no longer
  pending in the runs the recognizer produces: the handlers that end a session clear it.

  Each class keeps one optional callback per event; the log of a state records the
  callbacks the handlers invoke, with their arguments, and the methods of the recognizer
  they call, in order. An event is handled to its end before the next one, as on the
  browser's event loop.
\<close>

section \<open>InterruptibleVoiceInput (src/AITutor/Services/InterruptibleVoiceInput.ts)\<close>

datatype status = Idle | Detecting | Listening | Processing

datatype ivi_effect =
    UserSpeakingDetected
  | UserSpeechStart
  | UserSpeechEnd jsstring
  | IviError jsstring
  | StatusChange status
  | I_RecStart
  | I_RecStop
  | I_RecAbort

text \<open>
  The fields of the class, the configuration flattened into the state;
  \<open>i_audioContext\<close>, \<open>i_mediaStream\<close>, \<open>i_hasAnalyser\<close> and \<open>i_hasRecognition\<close> say
  that the object is not null. \<open>i_frames\<close> counts the pending \<open>requestAnimationFrame\<close>
  callbacks of \<open>detectInterrupt\<close>, \<open>i_resetTimers\<close> holds the deadlines of the pending
  2000 ms timeouts of \<open>processResult\<close>, and \<open>i_effects\<close> logs, in order, the callbacks
  invoked and the recognizer methods called.
\<close>

record ivi =
  i_audioContext :: bool
  i_mediaStream :: bool
  i_hasAnalyser :: bool
  i_hasRecognition :: bool
  i_isActive :: bool
  i_isListening :: bool
  i_isProcessing :: bool
  i_currentStatus :: status
  i_silenceTimeout :: nat
  i_voiceThreshold :: real
  i_interruptSensitivity :: real
  i_silenceTimer :: "nat option"
  i_resetTimers :: "nat list"
  i_frames :: nat
  i_finalTranscript :: jsstring
  i_effects :: "ivi_effect list"

definition i_emit :: "ivi_effect \<Rightarrow> ivi \<Rightarrow> ivi" where
  "i_emit e s = s\<lparr>i_effects := i_effects s @ [e]\<rparr>"

definition updateStatus :: "status \<Rightarrow> ivi \<Rightarrow> ivi" where
  "updateStatus st s =
     (if i_currentStatus s \<noteq> st then i_emit (StatusChange st) (s\<lparr>i_currentStatus := st\<rparr>)
      else s)"

definition i_reset :: "ivi \<Rightarrow> ivi" where
  "i_reset s =
     (let s1 = s\<lparr>i_isListening := False, i_isProcessing := False, i_finalTranscript := []\<rparr>;
          s2 = updateStatus (if i_isActive s1 then Detecting else Idle) s1
      in s2\<lparr>i_silenceTimer := None\<rparr>)"

definition i_resetSilenceTimer :: "nat \<Rightarrow> ivi \<Rightarrow> ivi" where
  "i_resetSilenceTimer now s = s\<lparr>i_silenceTimer := Some (now + i_silenceTimeout s)\<rparr>"

definition processResult :: "nat \<Rightarrow> ivi \<Rightarrow> ivi" where
  "processResult now s =
     (if i_isProcessing s then s
      else
        let s1 = updateStatus Processing (s\<lparr>i_isProcessing := True, i_isListening := False\<rparr>);
            s2 = s1\<lparr>i_silenceTimer := None\<rparr>;
            s3 = (if i_hasRecognition s2 then i_emit I_RecStop s2 else s2);
            result = trim (i_finalTranscript s3);
            s4 = (if result \<noteq> [] then i_emit (UserSpeechEnd result) s3 else s3)
        in s4\<lparr>i_resetTimers := i_resetTimers s4 @ [now + 2000]\<rparr>)"

text \<open>\<open>ok\<close> says whether \<open>recognition.start()\<close> returns; when it throws, the \<open>catch\<close> resets.\<close>

definition startUserListening :: "nat \<Rightarrow> bool \<Rightarrow> ivi \<Rightarrow> ivi" where
  "startUserListening now ok s =
     (if i_isListening s \<or> \<not> i_hasRecognition s then s
      else
        let s1 = i_emit I_RecStart (i_emit UserSpeechStart s)
        in if ok then i_resetSilenceTimer now s1 else i_reset s1)"

text \<open>
  One run of \<open>detectInterrupt\<close>, reading the normalized volume \<open>v\<close>. It asks for the
  next animation frame only on its last line.
\<close>

definition detectInterrupt :: "nat \<Rightarrow> real \<Rightarrow> bool \<Rightarrow> ivi \<Rightarrow> ivi" where
  "detectInterrupt now v ok s =
     (if \<not> i_isActive s then s
      else if \<not> i_hasAnalyser s then s
      else if v > i_interruptSensitivity s \<and> \<not> i_isListening s \<and> \<not> i_isProcessing s
      then startUserListening now ok (i_emit UserSpeakingDetected s)
      else s\<lparr>i_frames := i_frames s + 1\<rparr>)"

definition startInterruptDetection :: "nat \<Rightarrow> real \<Rightarrow> bool \<Rightarrow> ivi \<Rightarrow> ivi" where
  "startInterruptDetection now v ok s =
     (if \<not> i_hasAnalyser s then s
      else if \<not> i_isActive s then s
      else detectInterrupt now v ok s)"

definition i_onstart :: "ivi \<Rightarrow> ivi" where
  "i_onstart s = (updateStatus Listening (s\<lparr>i_isListening := True\<rparr>))\<lparr>i_finalTranscript := []\<rparr>"

definition i_onresult :: "nat \<Rightarrow> ResultEvent \<Rightarrow> ivi \<Rightarrow> ivi" where
  "i_onresult now ev s =
     (let s1 = (if newFinalOf ev \<noteq> []
                then s\<lparr>i_finalTranscript := i_finalTranscript s @ newFinalOf ev\<rparr> else s)
      in i_resetSilenceTimer now s1)"

definition i_onend :: "nat \<Rightarrow> ivi \<Rightarrow> ivi" where
  "i_onend now s = processResult now s"

definition setAISpeaking :: "bool \<Rightarrow> ivi \<Rightarrow> ivi" where
  "setAISpeaking speaking s = (if speaking then updateStatus Detecting s else s)"

text \<open>
  \<open>cleanup\<close> also cancels the animation frame requested last. \<open>stop\<close> has set
  \<open>isActive\<close> to false by then, and nothing sets it again once the audio context is
  closed, so a callback left pending returns at once: the model leaves \<open>i_frames\<close> as
  it is.
\<close>

definition i_cleanup :: "ivi \<Rightarrow> ivi" where
  "i_cleanup s =
     (let s1 = s\<lparr>i_silenceTimer := None\<rparr>;
          s2 = (if i_hasRecognition s1 then i_emit I_RecAbort s1 else s1)
      in s2\<lparr>i_mediaStream := False, i_audioContext := False\<rparr>)"

definition i_stop :: "ivi \<Rightarrow> ivi" where
  "i_stop s = updateStatus Idle (i_cleanup (s\<lparr>i_isActive := False\<rparr>))"

definition i_onerror :: "jsstring \<Rightarrow> ivi \<Rightarrow> ivi" where
  "i_onerror err s =
     (let s1 = i_reset (i_emit (IviError err) s)
      in if err = js ''not-allowed'' then i_stop s1 else s1)"

text \<open>
  \<open>start\<close>, with \<open>granted\<close> saying whether \<open>getUserMedia\<close> yields a stream (it throws
  otherwise) and \<open>v\<close> the volume the detection reads as it starts.
\<close>

definition i_start :: "nat \<Rightarrow> bool \<Rightarrow> real \<Rightarrow> bool \<Rightarrow> ivi \<Rightarrow> ivi" where
  "i_start now granted v ok s =
     (if i_isActive s then s
      else if \<not> granted then i_emit (IviError (js ''Failed to access microphone'')) s
      else
        let s1 = s\<lparr>i_mediaStream := True\<rparr>
        in if i_audioContext s1
           then startInterruptDetection now v ok
                  (updateStatus Detecting (s1\<lparr>i_hasAnalyser := True, i_isActive := True\<rparr>))
           else s1)"

text \<open>
  The events the instance reacts to: the recognizer's, the timers' callbacks, an animation
  frame (with the volume read and whether \<open>recognition.start()\<close> returns), and the calls
  of \<open>start\<close>, \<open>stop\<close> and \<open>setAISpeaking\<close>. The callback of the 2000 ms timeout
  resets and starts the detection again, which reads the volume at once.
\<close>

datatype ivi_event =
    I_OnStart
  | I_OnResult ResultEvent
  | I_OnEnd
  | I_SilenceFire
  | I_ResetFire real bool
  | I_Frame real bool
  | I_SetAISpeaking bool
  | I_OnError jsstring
  | I_Start bool real bool
  | I_Stop

fun ivi_step :: "nat \<Rightarrow> ivi_event \<Rightarrow> ivi \<Rightarrow> ivi" where
  "ivi_step now I_OnStart s = i_onstart s"
| "ivi_step now (I_OnResult ev) s = i_onresult now ev s"
| "ivi_step now I_OnEnd s = i_onend now s"
| "ivi_step now I_SilenceFire s =
     (case i_silenceTimer s of
        None \<Rightarrow> s
      | Some d \<Rightarrow> if d \<le> now then processResult now (s\<lparr>i_silenceTimer := None\<rparr>) else s)"
| "ivi_step now (I_ResetFire v ok) s =
     (case i_resetTimers s of
        [] \<Rightarrow> s
      | d # ds \<Rightarrow>
          if d \<le> now
          then (let s1 = i_reset (s\<lparr>i_resetTimers := ds\<rparr>)
                in if i_isActive s1 then startInterruptDetection now v ok s1 else s1)
          else s)"
| "ivi_step now (I_Frame v ok) s =
     (if i_frames s = 0 then s
      else detectInterrupt now v ok (s\<lparr>i_frames := i_frames s - 1\<rparr>))"
| "ivi_step now (I_SetAISpeaking speaking) s = setAISpeaking speaking s"
| "ivi_step now (I_OnError err) s = i_onerror err s"
| "ivi_step now (I_Start granted v ok) s = i_start now granted v ok s"
| "ivi_step now I_Stop s = i_stop s"

fun ivi_run :: "(nat \<times> ivi_event) list \<Rightarrow> ivi \<Rightarrow> ivi" where
  "ivi_run [] s = s"
| "ivi_run ((now, e) # evs) s = ivi_run evs (ivi_step now e s)"

text \<open>The two finalize triggers of the class call \<open>processResult\<close>.\<close>

datatype ivi_trigger = I_SilenceTimeout | I_PlatformEnd

fun i_trigger :: "nat \<Rightarrow> ivi_trigger \<Rightarrow> ivi \<Rightarrow> ivi" where
  "i_trigger now I_SilenceTimeout s = processResult now s"
| "i_trigger now I_PlatformEnd s = i_onend now s"

fun i_triggers :: "(nat \<times> ivi_trigger) list \<Rightarrow> ivi \<Rightarrow> ivi" where
  "i_triggers [] s = s"
| "i_triggers ((now, tr) # trs) s = i_triggers trs (i_trigger now tr s)"

fun statusEvents :: "ivi_effect list \<Rightarrow> status list" where
  "statusEvents [] = []"
| "statusEvents (StatusChange st # es) = st # statusEvents es"
| "statusEvents (e # es) = statusEvents es"

fun speechEnds :: "ivi_effect list \<Rightarrow> jsstring list" where
  "speechEnds [] = []"
| "speechEnds (UserSpeechEnd t # es) = t # speechEnds es"
| "speechEnds (e # es) = speechEnds es"

fun updateStatuses :: "status list \<Rightarrow> ivi \<Rightarrow> ivi" where
  "updateStatuses [] s = s"
| "updateStatuses (st # sts) s = updateStatuses sts (updateStatus st s)"

section \<open>SimpleVoiceInput (src/AITutor/Services/SimpleVoiceInput.ts)\<close>

datatype svi_effect =
    S_OnStart
  | S_OnTranscript jsstring bool
  | S_OnComplete jsstring
  | S_OnError jsstring
  | S_OnStop
  | S_RecStart
  | S_RecStop
  | S_RecAbort

text \<open>
  \<open>s_recognition\<close> says that \<open>recognition\<close> is not null; the constructor creates it
  exactly when \<open>isSupported()\<close> holds, so the field stands for both. \<open>s_restartTimers\<close>
  holds the deadlines of the pending 3000 ms timeouts of \<open>complete\<close>.
\<close>

record svi =
  s_recognition :: bool
  s_isListening :: bool
  s_timeout :: nat
  s_silenceTimeout :: nat
  s_timeoutTimer :: "nat option"
  s_silenceTimer :: "nat option"
  s_restartTimers :: "nat list"
  s_finalTranscript :: jsstring
  s_effects :: "svi_effect list"

definition s_emit :: "svi_effect \<Rightarrow> svi \<Rightarrow> svi" where
  "s_emit e s = s\<lparr>s_effects := s_effects s @ [e]\<rparr>"

definition s_resetSilenceTimer :: "nat \<Rightarrow> svi \<Rightarrow> svi" where
  "s_resetSilenceTimer now s = s\<lparr>s_silenceTimer := Some (now + s_silenceTimeout s)\<rparr>"

definition s_startTimers :: "nat \<Rightarrow> svi \<Rightarrow> svi" where
  "s_startTimers now s = s_resetSilenceTimer now (s\<lparr>s_timeoutTimer := Some (now + s_timeout s)\<rparr>)"

definition s_clearTimers :: "svi \<Rightarrow> svi" where
  "s_clearTimers s = s\<lparr>s_timeoutTimer := None, s_silenceTimer := None\<rparr>"

definition s_complete :: "nat \<Rightarrow> svi \<Rightarrow> svi" where
  "s_complete now s =
     (if \<not> s_isListening s then s
      else
        let s1 = s_clearTimers (s\<lparr>s_isListening := False\<rparr>);
            s2 = (if s_recognition s1 then s_emit S_RecStop s1 else s1);
            result = trim (s_finalTranscript s2);
            s3 = (if result \<noteq> [] then s_emit (S_OnComplete result) s2 else s2);
            s4 = s_emit S_OnStop s3
        in s4\<lparr>s_restartTimers := s_restartTimers s4 @ [now + 3000]\<rparr>)"

definition s_onstart :: "nat \<Rightarrow> svi \<Rightarrow> svi" where
  "s_onstart now s =
     s_startTimers now (s_emit S_OnStart (s\<lparr>s_isListening := True, s_finalTranscript := []\<rparr>))"

definition s_onresult :: "nat \<Rightarrow> ResultEvent \<Rightarrow> svi \<Rightarrow> svi" where
  "s_onresult now ev s =
     (let s1 = (if newFinalOf ev \<noteq> []
                then s\<lparr>s_finalTranscript := s_finalTranscript s @ newFinalOf ev\<rparr> else s);
          s2 = s_emit (S_OnTranscript (trim (s_finalTranscript s1 @ interimOf ev))
                 (newFinalOf ev \<noteq> [])) s1;
          s3 = (if newFinalOf ev \<noteq> [] then s_resetSilenceTimer now s2
                else if interimOf ev \<noteq> [] then s_resetSilenceTimer now s2
                else s2)
      in if length (trim (s_finalTranscript s3)) > 5 then s_complete now s3 else s3)"

definition s_onend :: "nat \<Rightarrow> svi \<Rightarrow> svi" where
  "s_onend now s = s_complete now s"

definition s_onerror :: "jsstring \<Rightarrow> svi \<Rightarrow> svi" where
  "s_onerror err s = s_emit (S_OnError err) (s_clearTimers (s\<lparr>s_isListening := False\<rparr>))"

text \<open>
  \<open>start\<close> calls \<open>recognition.start()\<close> and rethrows what it throws; either way the
  instance's own state is as before.
\<close>

definition s_start :: "svi \<Rightarrow> svi" where
  "s_start s =
     (if \<not> s_recognition s then s
      else if s_isListening s then s
      else s_emit S_RecStart s)"

definition s_stop :: "nat \<Rightarrow> svi \<Rightarrow> svi" where
  "s_stop now s = s_complete now s"

definition s_abort :: "svi \<Rightarrow> svi" where
  "s_abort s =
     (let s1 = s_clearTimers (s\<lparr>s_isListening := False\<rparr>);
          s2 = (if s_recognition s1 then s_emit S_RecAbort s1 else s1)
      in s_emit S_OnStop s2)"

datatype svi_event =
    S_RecOnStart
  | S_RecOnResult ResultEvent
  | S_RecOnEnd
  | S_RecOnError jsstring
  | S_TimeoutFire
  | S_SilenceFire
  | S_RestartFire
  | S_Start
  | S_Stop
  | S_Abort

fun svi_step :: "nat \<Rightarrow> svi_event \<Rightarrow> svi \<Rightarrow> svi" where
  "svi_step now S_RecOnStart s = s_onstart now s"
| "svi_step now (S_RecOnResult ev) s = s_onresult now ev s"
| "svi_step now S_RecOnEnd s = s_onend now s"
| "svi_step now (S_RecOnError err) s = s_onerror err s"
| "svi_step now S_TimeoutFire s =
     (case s_timeoutTimer s of
        None \<Rightarrow> s
      | Some d \<Rightarrow> if d \<le> now then s_stop now (s\<lparr>s_timeoutTimer := None\<rparr>) else s)"
| "svi_step now S_SilenceFire s =
     (case s_silenceTimer s of
        None \<Rightarrow> s
      | Some d \<Rightarrow> if d \<le> now then s_complete now (s\<lparr>s_silenceTimer := None\<rparr>) else s)"
| "svi_step now S_RestartFire s =
     (case s_restartTimers s of
        [] \<Rightarrow> s
      | d # ds \<Rightarrow>
          if d \<le> now
          then (let s1 = s\<lparr>s_restartTimers := ds\<rparr>
                in if \<not> s_isListening s1 then s_start s1 else s1)
          else s)"
| "svi_step now S_Start s = s_start s"
| "svi_step now S_Stop s = s_stop now s"
| "svi_step now S_Abort s = s_abort s"

fun svi_run :: "(nat \<times> svi_event) list \<Rightarrow> svi \<Rightarrow> svi" where
  "svi_run [] s = s"
| "svi_run ((now, e) # evs) s = svi_run evs (svi_step now e s)"

text \<open>
  The three finalize triggers of the class: the silence timeout calls \<open>complete\<close>, the
  overall timeout calls \<open>stop\<close>, the recognizer's end event calls \<open>complete\<close>.
\<close>

datatype svi_trigger = S_SilenceTimeout | S_MaxTimeout | S_PlatformEnd

fun s_trigger :: "nat \<Rightarrow> svi_trigger \<Rightarrow> svi \<Rightarrow> svi" where
  "s_trigger now S_SilenceTimeout s = s_complete now s"
| "s_trigger now S_MaxTimeout s = s_stop now s"
| "s_trigger now S_PlatformEnd s = s_onend now s"

fun s_triggers :: "(nat \<times> svi_trigger) list \<Rightarrow> svi \<Rightarrow> svi" where
  "s_triggers [] s = s"
| "s_triggers ((now, tr) # trs) s = s_triggers trs (s_trigger now tr s)"

fun completions :: "svi_effect list \<Rightarrow> jsstring list" where
  "completions [] = []"
| "completions (S_OnComplete t # es) = t # completions es"
| "completions (e # es) = completions es"

section \<open>ReliableVoiceInput (src/AITutor/Services/ReliableVoiceInput.ts)\<close>

datatype rvi_effect =
    R_OnListeningStart
  | R_OnListeningEnd
  | R_OnSpeechResult jsstring
  | R_OnError jsstring
  | R_RecStart
  | R_RecStop
  | R_RecAbort

text \<open>
  \<open>r_supported\<close> is the static \<open>isSupported()\<close>, \<open>r_recognition\<close> says that
  \<open>recognition\<close> is not null.
\<close>

record rvi =
  r_supported :: bool
  r_recognition :: bool
  r_isListening :: bool
  r_isEnabled :: bool
  r_maxDuration :: nat
  r_timeoutTimer :: "nat option"
  r_effects :: "rvi_effect list"

definition r_emit :: "rvi_effect \<Rightarrow> rvi \<Rightarrow> rvi" where
  "r_emit e s = s\<lparr>r_effects := r_effects s @ [e]\<rparr>"

definition r_startTimeout :: "nat \<Rightarrow> rvi \<Rightarrow> rvi" where
  "r_startTimeout now s = s\<lparr>r_timeoutTimer := Some (now + r_maxDuration s)\<rparr>"

definition r_cleanup :: "rvi \<Rightarrow> rvi" where
  "r_cleanup s = (r_emit R_OnListeningEnd (s\<lparr>r_isListening := False\<rparr>))\<lparr>r_timeoutTimer := None\<rparr>"

definition r_handleResult :: "jsstring \<Rightarrow> rvi \<Rightarrow> rvi" where
  "r_handleResult t s = r_emit (R_OnSpeechResult t) (r_cleanup s)"

definition r_handleError :: "jsstring \<Rightarrow> rvi \<Rightarrow> rvi" where
  "r_handleError err s =
     (let s1 = r_cleanup s
      in if err = js ''not-allowed''
         then r_emit (R_OnError (js ''Microphone access denied. Please enable microphone permissions in your browser settings.''))
                (s1\<lparr>r_isEnabled := False\<rparr>)
         else if err = js ''no-speech''
         then r_emit (R_OnError (js ''No speech detected. Please try speaking louder or closer to the microphone.'')) s1
         else r_emit (R_OnError err) s1)"

text \<open>\<open>ok\<close> says whether \<open>recognition.start()\<close> returns; when it throws, the \<open>catch\<close> reports it.\<close>

definition r_startListening :: "bool \<Rightarrow> rvi \<Rightarrow> rvi" where
  "r_startListening ok s =
     (if \<not> r_isEnabled s then s
      else if \<not> r_supported s then s
      else if r_isListening s then s
      else if r_recognition s
      then (let s1 = r_emit R_RecStart s
            in if ok then s1 else r_emit (R_OnError (js ''Failed to start voice recognition'')) s1)
      else s)"

definition r_stop :: "rvi \<Rightarrow> rvi" where
  "r_stop s =
     (if \<not> r_isListening s then s
      else if r_recognition s then r_emit R_RecStop s else s)"

definition r_abort :: "rvi \<Rightarrow> rvi" where
  "r_abort s = (let s1 = r_cleanup s in if r_recognition s1 then r_emit R_RecAbort s1 else s1)"

definition r_enable :: "rvi \<Rightarrow> rvi" where
  "r_enable s = s\<lparr>r_isEnabled := True\<rparr>"

definition r_disable :: "rvi \<Rightarrow> rvi" where
  "r_disable s = r_stop (s\<lparr>r_isEnabled := False\<rparr>)"

definition r_onstart :: "nat \<Rightarrow> rvi \<Rightarrow> rvi" where
  "r_onstart now s = r_startTimeout now (r_emit R_OnListeningStart (s\<lparr>r_isListening := True\<rparr>))"

text \<open>The loop of this \<open>onresult\<close> runs over all results and keeps the final ones.\<close>

definition r_onresult :: "ResultEvent \<Rightarrow> rvi \<Rightarrow> rvi" where
  "r_onresult ev s =
     (let finalTranscript = concat (map transcript (filter isFinal (results ev)))
      in if trim finalTranscript \<noteq> [] then r_handleResult (trim finalTranscript) s else s)"

datatype rvi_event =
    R_RecOnStart
  | R_RecOnResult ResultEvent
  | R_RecOnEnd
  | R_RecOnError jsstring
  | R_TimeoutFire
  | R_StartListening bool
  | R_Stop
  | R_Abort
  | R_Enable
  | R_Disable

fun rvi_step :: "nat \<Rightarrow> rvi_event \<Rightarrow> rvi \<Rightarrow> rvi" where
  "rvi_step now R_RecOnStart s = r_onstart now s"
| "rvi_step now (R_RecOnResult ev) s = r_onresult ev s"
| "rvi_step now R_RecOnEnd s = r_cleanup s"
| "rvi_step now (R_RecOnError err) s = r_handleError err s"
| "rvi_step now R_TimeoutFire s =
     (case r_timeoutTimer s of
        None \<Rightarrow> s
      | Some d \<Rightarrow> if d \<le> now then r_stop (s\<lparr>r_timeoutTimer := None\<rparr>) else s)"
| "rvi_step now (R_StartListening ok) s = r_startListening ok s"
| "rvi_step now R_Stop s = r_stop s"
| "rvi_step now R_Abort s = r_abort s"
| "rvi_step now R_Enable s = r_enable s"
| "rvi_step now R_Disable s = r_disable s"

fun rvi_run :: "(nat \<times> rvi_event) list \<Rightarrow> rvi \<Rightarrow> rvi" where
  "rvi_run [] s = s"
| "rvi_run ((now, e) # evs) s = rvi_run evs (rvi_step now e s)"

fun isEnable :: "rvi_event \<Rightarrow> bool" where
  "isEnable R_Enable = True"
| "isEnable e = False"

section \<open>VoiceActivityDetection (src/AITutor/Services/VoiceActivityDetection.ts)\<close>

datatype vad_effect =
    V_OnVoiceStart
  | V_OnVoiceEnd jsstring
  | V_OnError jsstring
  | V_RecStart
  | V_RecStop

text \<open>
  The detection and recognition handlers of the class; \<open>start\<close> and \<open>stop\<close>, which
  set up and tear down the analyser, are left out, \<open>v_isActive\<close> and \<open>v_hasAnalyser\<close>
  being what they leave. \<open>v_frames\<close> counts the pending \<open>requestAnimationFrame\<close>
  callbacks of \<open>detectVoice\<close>;
  \<open>v_restartTimers\<close> and \<open>v_endTimers\<close> hold the deadlines of the pending 2000 ms
  timeouts of \<open>handleVoiceEnd\<close> and 100 ms timeouts of \<open>onend\<close>. \<open>debounceTimer\<close> is never
  set, so clearing it does nothing and the model leaves it out.
\<close>

record vad =
  v_hasAnalyser :: bool
  v_hasRecognition :: bool
  v_isActive :: bool
  v_isListening :: bool
  v_threshold :: real
  v_maxListenTime :: nat
  v_maxListenTimer :: "nat option"
  v_restartTimers :: "nat list"
  v_endTimers :: "nat list"
  v_frames :: nat
  v_finalTranscript :: jsstring
  v_effects :: "vad_effect list"

definition v_emit :: "vad_effect \<Rightarrow> vad \<Rightarrow> vad" where
  "v_emit e s = s\<lparr>v_effects := v_effects s @ [e]\<rparr>"

definition v_stopListening :: "vad \<Rightarrow> vad" where
  "v_stopListening s =
     (if \<not> v_isListening s then s
      else
        let s1 = s\<lparr>v_isListening := False\<rparr>;
            s2 = (if v_hasRecognition s1 then v_emit V_RecStop s1 else s1)
        in s2\<lparr>v_maxListenTimer := None\<rparr>)"

definition handleVoiceEnd :: "nat \<Rightarrow> jsstring \<Rightarrow> vad \<Rightarrow> vad" where
  "handleVoiceEnd now t s =
     (let s1 = v_stopListening s;
          s2 = (if trim t \<noteq> [] then v_emit (V_OnVoiceEnd (trim t)) s1 else s1)
      in s2\<lparr>v_restartTimers := v_restartTimers s2 @ [now + 2000]\<rparr>)"

text \<open>\<open>ok\<close> says whether \<open>recognition.start()\<close> returns.\<close>

definition v_startListening :: "nat \<Rightarrow> bool \<Rightarrow> vad \<Rightarrow> vad" where
  "v_startListening now ok s =
     (if v_isListening s \<or> \<not> v_hasRecognition s then s
      else
        let s1 = v_emit V_RecStart (v_emit V_OnVoiceStart (s\<lparr>v_isListening := True\<rparr>))
        in if ok then s1\<lparr>v_maxListenTimer := Some (now + v_maxListenTime s1)\<rparr>
           else v_stopListening s1)"

text \<open>
  One run of \<open>detectVoice\<close>, reading the normalized volume \<open>v\<close>; it always asks for the
  next animation frame unless the instance is inactive.
\<close>

definition detectVoice :: "nat \<Rightarrow> real \<Rightarrow> bool \<Rightarrow> vad \<Rightarrow> vad" where
  "detectVoice now v ok s =
     (if \<not> v_isActive s then s
      else if \<not> v_hasAnalyser s then s
      else
        let s1 = (if v > v_threshold s \<and> \<not> v_isListening s then v_startListening now ok s else s)
        in s1\<lparr>v_frames := v_frames s1 + 1\<rparr>)"

definition startVoiceDetection :: "nat \<Rightarrow> real \<Rightarrow> bool \<Rightarrow> vad \<Rightarrow> vad" where
  "startVoiceDetection now v ok s =
     (if \<not> v_hasAnalyser s then s
      else if \<not> v_isActive s then s
      else detectVoice now v ok s)"

text \<open>
  \<open>onresult\<close>: a final text ends the voice at once; so does an interim text of more than
  10 characters that ends in a sentence-end mark (the test \<open>/[.!?]$/\<close>).
\<close>

definition v_onresult :: "nat \<Rightarrow> ResultEvent \<Rightarrow> vad \<Rightarrow> vad" where
  "v_onresult now ev s =
     (let s1 = s\<lparr>v_finalTranscript := v_finalTranscript s @ newFinalOf ev\<rparr>
      in if trim (newFinalOf ev) \<noteq> [] then handleVoiceEnd now (trim (newFinalOf ev)) s1
         else if trim (interimOf ev) \<noteq> [] \<and> length (trim (interimOf ev)) > 10
                 \<and> isSentenceEnd (last (trim (interimOf ev)))
         then handleVoiceEnd now (trim (interimOf ev)) s1
         else s1)"

definition v_onerror :: "jsstring \<Rightarrow> vad \<Rightarrow> vad" where
  "v_onerror err s = v_stopListening (v_emit (V_OnError err) s)"

definition v_onend :: "nat \<Rightarrow> vad \<Rightarrow> vad" where
  "v_onend now s =
     (if v_isActive s \<and> \<not> v_isListening s
      then s\<lparr>v_endTimers := v_endTimers s @ [now + 100]\<rparr> else s)"

definition v_maxListenCallback :: "nat \<Rightarrow> vad \<Rightarrow> vad" where
  "v_maxListenCallback now s =
     (if v_isListening s then handleVoiceEnd now [] (v_stopListening s) else s)"

datatype vad_event =
    V_Frame real bool
  | V_RecOnResult ResultEvent
  | V_RecOnError jsstring
  | V_RecOnEnd
  | V_MaxListenFire
  | V_RestartFire real bool
  | V_EndTimerFire real bool

fun vad_step :: "nat \<Rightarrow> vad_event \<Rightarrow> vad \<Rightarrow> vad" where
  "vad_step now (V_Frame v ok) s =
     (if v_frames s = 0 then s
      else detectVoice now v ok (s\<lparr>v_frames := v_frames s - 1\<rparr>))"
| "vad_step now (V_RecOnResult ev) s = v_onresult now ev s"
| "vad_step now (V_RecOnError err) s = v_onerror err s"
| "vad_step now V_RecOnEnd s = v_onend now s"
| "vad_step now V_MaxListenFire s =
     (case v_maxListenTimer s of
        None \<Rightarrow> s
      | Some d \<Rightarrow> if d \<le> now then v_maxListenCallback now (s\<lparr>v_maxListenTimer := None\<rparr>) else s)"
| "vad_step now (V_RestartFire v ok) s =
     (case v_restartTimers s of
        [] \<Rightarrow> s
      | d # ds \<Rightarrow>
          if d \<le> now
          then (let s1 = s\<lparr>v_restartTimers := ds\<rparr>
                in if v_isActive s1 then startVoiceDetection now v ok s1 else s1)
          else s)"
| "vad_step now (V_EndTimerFire v ok) s =
     (case v_endTimers s of
        [] \<Rightarrow> s
      | d # ds \<Rightarrow>
          if d \<le> now
          then (let s1 = s\<lparr>v_endTimers := ds\<rparr>
                in if v_isActive s1 then startVoiceDetection now v ok s1 else s1)
          else s)"

fun vad_run :: "(nat \<times> vad_event) list \<Rightarrow> vad \<Rightarrow> vad" where
  "vad_run [] s = s"
| "vad_run ((now, e) # evs) s = vad_run evs (vad_step now e s)"

text \<open>Runs of animation frames alone: the samples read and whether each start returns.\<close>

fun vad_frames :: "nat \<Rightarrow> (real \<times> bool) list \<Rightarrow> vad \<Rightarrow> vad" where
  "vad_frames now [] s = s"
| "vad_frames now ((v, ok) # fs) s = vad_frames now fs (vad_step now (V_Frame v ok) s)"

fun ivi_frames :: "nat \<Rightarrow> (real \<times> bool) list \<Rightarrow> ivi \<Rightarrow> ivi" where
  "ivi_frames now [] s = s"
| "ivi_frames now ((v, ok) # fs) s = ivi_frames now fs (ivi_step now (I_Frame v ok) s)"

fun voiceStarts :: "vad_effect list \<Rightarrow> nat" where
  "voiceStarts [] = 0"
| "voiceStarts (V_OnVoiceStart # es) = Suc (voiceStarts es)"
| "voiceStarts (e # es) = voiceStarts es"

fun speakingDetections :: "ivi_effect list \<Rightarrow> nat" where
  "speakingDetections [] = 0"
| "speakingDetections (UserSpeakingDetected # es) = Suc (speakingDetections es)"
| "speakingDetections (e # es) = speakingDetections es"

section \<open>Observations on the logs and example states\<close>

text \<open>
  \<open>okLog c0 s\<close>: the status \<open>c0\<close> followed by the statuses logged in \<open>s\<close> has no two
  equal neighbours and ends in the current status.
\<close>

definition okLog :: "status \<Rightarrow> ivi \<Rightarrow> bool" where
  "okLog c0 s \<longleftrightarrow> distinct_adj (c0 # statusEvents (i_effects s))
      \<and> last (c0 # statusEvents (i_effects s)) = i_currentStatus s"

text \<open>The two events whose handlers call \<open>reset\<close>, which clears \<open>isProcessing\<close>.\<close>

fun endsProcessing :: "ivi_event \<Rightarrow> bool" where
  "endsProcessing (I_ResetFire v ok) = True"
| "endsProcessing (I_OnError err) = True"
| "endsProcessing e = False"

fun isResult :: "ivi_event \<Rightarrow> bool" where
  "isResult (I_OnResult ev) = True"
| "isResult e = False"

fun recStarts :: "rvi_effect list \<Rightarrow> nat" where
  "recStarts [] = 0"
| "recStarts (R_RecStart # es) = Suc (recStarts es)"
| "recStarts (e # es) = recStarts es"

text \<open>
  Modelled from the spec: the registration of \<open>TTSService.stop\<close> as the
  \<open>onUserSpeakingDetected\<close> callback, which the specification describes and no file
  under src does. \<open>silentAtStart es t\<close> replays the log \<open>es\<close> of InterruptibleVoiceInput
  against the service \<open>t\<close> with that callback and says that the service is not speaking
  at any call of \<open>recognition.start()\<close> in \<open>es\<close>.
\<close>

fun silentAtStart :: "ivi_effect list \<Rightarrow> TTSService \<Rightarrow> bool" where
  "silentAtStart [] t = True"
| "silentAtStart (UserSpeakingDetected # es) t = silentAtStart es (tts_stop t)"
| "silentAtStart (I_RecStart # es) t = (\<not> tts_isSpeaking t \<and> silentAtStart es t)"
| "silentAtStart (e # es) t = silentAtStart es t"







text \<open>
  A final and an interim result event carrying one transcript, and the instances as their
  constructors leave them with the default configuration on a browser that has the
  recognizer. \<open>ivi_detecting\<close> and \<open>vad_active\<close> are the instances after \<open>start()\<close> has
  set up the analyser and its first sample was below the threshold (for \<open>ivi_detecting\<close>
  the model of \<open>start\<close> yields it from \<open>ivi_init\<close>, see \<open>ivi_detecting_reached\<close>).
\<close>

definition finalResult :: "string \<Rightarrow> ResultEvent" where
  "finalResult t = \<lparr>resultIndex = 0, results = [\<lparr>transcript = js t, isFinal = True\<rparr>]\<rparr>"

definition interimResult :: "string \<Rightarrow> ResultEvent" where
  "interimResult t = \<lparr>resultIndex = 0, results = [\<lparr>transcript = js t, isFinal = False\<rparr>]\<rparr>"

definition svi_init :: svi where
  "svi_init = \<lparr>s_recognition = True, s_isListening = False, s_timeout = 8000,
     s_silenceTimeout = 2000, s_timeoutTimer = None, s_silenceTimer = None,
     s_restartTimers = [], s_finalTranscript = [], s_effects = []\<rparr>"

definition ivi_init :: ivi where
  "ivi_init = \<lparr>i_audioContext = True, i_mediaStream = False, i_hasAnalyser = False,
     i_hasRecognition = True, i_isActive = False, i_isListening = False,
     i_isProcessing = False, i_currentStatus = Idle, i_silenceTimeout = 2000,
     i_voiceThreshold = 0.02, i_interruptSensitivity = 0.015, i_silenceTimer = None,
     i_resetTimers = [], i_frames = 0, i_finalTranscript = [], i_effects = []\<rparr>"

definition ivi_detecting :: ivi where
  "ivi_detecting = \<lparr>i_audioContext = True, i_mediaStream = True, i_hasAnalyser = True, i_hasRecognition = True, i_isActive = True,
     i_isListening = False, i_isProcessing = False, i_currentStatus = Detecting,
     i_silenceTimeout = 2000, i_voiceThreshold = 0.02, i_interruptSensitivity = 0.015,
     i_silenceTimer = None, i_resetTimers = [], i_frames = 1, i_finalTranscript = [],
     i_effects = [StatusChange Detecting]\<rparr>"

definition rvi_init :: rvi where
  "rvi_init = \<lparr>r_supported = True, r_recognition = True, r_isListening = False,
     r_isEnabled = True, r_maxDuration = 10000, r_timeoutTimer = None, r_effects = []\<rparr>"

definition vad_active :: vad where
  "vad_active = \<lparr>v_hasAnalyser = True, v_hasRecognition = True, v_isActive = True,
     v_isListening = False, v_threshold = 0.01, v_maxListenTime = 10000,
     v_maxListenTimer = None, v_restartTimers = [], v_endTimers = [], v_frames = 1,
     v_finalTranscript = [], v_effects = []\<rparr>"

text \<open>Transcript fragments at 0 ms, 500 ms and 1800 ms.\<close>

definition fragments :: "(nat \<times> ivi_event) list" where
  "fragments = [(0, I_OnResult (interimResult ''hello'')),
     (500, I_OnResult (interimResult ''hello wor'')),
     (1800, I_OnResult (finalResult ''hello world''))]"

definition tts_init :: TTSService where
  "tts_init = \<lparr>config = \<lparr>enabled = True, rate = 0.9, pitch = 1.0, volume = 0.8\<rparr>,
     synthesis = True, currentUtterance = None, synthQueue = [], pendingSteps = [],
     delayTimer = None, longTextResult = None\<rparr>"

section \<open>Evaluation of the models on concrete inputs\<close>

lemmas string_defs = js_def trim_def isWhiteSpace_def isSentenceEnd_def
  finalResult_def interimResult_def newFinalOf_def interimOf_def

lemmas clean_defs = cleanTextForSpeech_def cleanRules_def matchDelimited_def matchHeading_def
  boundaryBefore_def boundaryAfter_def matchWord_def matchAbbrev_def matchSentenceGap_def
  matchSpaces_def isLineTerminator_def isWordChar_def isUpperAZ_def

lemmas tts_defs = tts_init_def tts_stop_def tts_isSpeaking_def tts_speak_def startLongText_def
  speakLongText_def splitIntoSentences_def matchSeparator_def

lemmas svi_defs = svi_init_def s_emit_def s_resetSilenceTimer_def s_startTimers_def
  s_clearTimers_def s_complete_def s_onstart_def s_onresult_def s_onend_def s_onerror_def
  s_start_def s_stop_def s_abort_def

lemmas ivi_defs = ivi_detecting_def i_emit_def updateStatus_def i_reset_def
  i_resetSilenceTimer_def processResult_def startUserListening_def detectInterrupt_def
  startInterruptDetection_def i_onstart_def i_onresult_def i_onend_def setAISpeaking_def
  i_cleanup_def i_stop_def i_onerror_def i_start_def
 

lemmas rvi_defs = rvi_init_def r_emit_def r_startTimeout_def r_cleanup_def
  r_handleResult_def r_handleError_def r_startListening_def r_stop_def r_abort_def
  r_enable_def r_disable_def r_onstart_def r_onresult_def

lemmas vad_defs = vad_active_def v_emit_def v_stopListening_def handleVoiceEnd_def
  v_startListening_def detectVoice_def startVoiceDetection_def v_onresult_def
  v_onerror_def v_onend_def v_maxListenCallback_def

lemma ivi_detecting_reached: "ivi_step 0 (I_Start True 0 True) ivi_init = ivi_detecting"
  by (simp add: ivi_init_def ivi_defs Let_def)

section \<open>Splitting, chunks and the awaited calls of speakLongText\<close>




























lemma hello_script:
  "speakLongText tts_init (js ''Hello. Bye now'') 8
     = [Speak (js ''Hello .''), Delay 300, Speak (js ''Bye now'')]"
  by (simp add: speakLongText_def splitIntoSentences_def matchSeparator_def tts_init_def
      string_defs Let_def)

lemma hello_clean:
  "cleanTextForSpeech (js ''Hello .'') = js ''Hello .''"
  "cleanTextForSpeech (js ''Bye now'') = js ''Bye now''"
  by (simp_all add: clean_defs string_defs Let_def)

lemma hello_nonblank: "trim (js ''Hello .'') \<noteq> []" "trim (js ''Bye now'') \<noteq> []"
  by (simp_all add: string_defs)

lemma hello_start:
  "startLongText 0 (js ''Hello. Bye now'') 8 tts_init
     = tts_init\<lparr>currentUtterance := Some (js ''Hello .''), synthQueue := [js ''Hello .''],
         pendingSteps := [Speak (js ''Hello .''), Delay 300, Speak (js ''Bye now'')]\<rparr>"
  unfolding startLongText_def hello_script
  by (simp add: tts_speak_def tts_stop_def hello_clean hello_nonblank tts_init_def Let_def)

section \<open>Status events of InterruptibleVoiceInput\<close>

lemma statusEvents_append: "statusEvents (xs @ ys) = statusEvents xs @ statusEvents ys"
  by (induction xs rule: statusEvents.induct) simp_all

lemma updateStatuses_trace:
  "\<exists>new. statusEvents (i_effects (updateStatuses sts s)) = statusEvents (i_effects s) @ new
        \<and> distinct_adj (i_currentStatus s # new)"
proof (induction sts arbitrary: s)
  case Nil
  show ?case by simp
next
  case (Cons st sts)
  obtain new where n: "statusEvents (i_effects (updateStatuses sts (updateStatus st s)))
       = statusEvents (i_effects (updateStatus st s)) @ new"
     and d: "distinct_adj (i_currentStatus (updateStatus st s) # new)"
    using Cons.IH by blast
  show ?case
  proof (cases "i_currentStatus s = st")
    case True
    then have "updateStatus st s = s" by (simp add: updateStatus_def)
    with n d show ?thesis by auto
  next
    case False
    then have e: "statusEvents (i_effects (updateStatus st s)) = statusEvents (i_effects s) @ [st]"
      and c: "i_currentStatus (updateStatus st s) = st"
      by (simp_all add: updateStatus_def i_emit_def statusEvents_append)
    from n e have "statusEvents (i_effects (updateStatuses (st # sts) s))
        = statusEvents (i_effects s) @ (st # new)" by simp
    moreover from d c False have "distinct_adj (i_currentStatus s # st # new)" by simp
    ultimately show ?thesis by blast
  qed
qed

lemma distinct_adj_snoc:
  "distinct_adj (c # xs @ [y]) \<longleftrightarrow> distinct_adj (c # xs) \<and> last (c # xs) \<noteq> y"
  using distinct_adj_append_iff [of "c # xs" "[y]"] by simp

lemma okLog_updateStatus: "okLog c0 s \<Longrightarrow> okLog c0 (updateStatus st s)"
  by (auto simp: okLog_def updateStatus_def i_emit_def statusEvents_append distinct_adj_snoc)

lemma okLog_emit: "statusEvents [e] = [] \<Longrightarrow> okLog c0 (i_emit e s) = okLog c0 s"
  by (simp add: okLog_def i_emit_def statusEvents_append)

lemma okLog_fields:
  "okLog c0 (i_audioContext_update f1 s) = okLog c0 s"
  "okLog c0 (i_mediaStream_update f2 s) = okLog c0 s"
  "okLog c0 (i_hasAnalyser_update f3 s) = okLog c0 s"
  "okLog c0 (i_isActive_update f4 s) = okLog c0 s"
  "okLog c0 (i_isListening_update f5 s) = okLog c0 s"
  "okLog c0 (i_isProcessing_update f6 s) = okLog c0 s"
  "okLog c0 (i_silenceTimer_update f7 s) = okLog c0 s"
  "okLog c0 (i_resetTimers_update f8 s) = okLog c0 s"
  "okLog c0 (i_frames_update f9 s) = okLog c0 s"
  "okLog c0 (i_finalTranscript_update f10 s) = okLog c0 s"
  by (simp_all add: okLog_def)

lemmas okLog_simps = okLog_updateStatus okLog_emit okLog_fields

lemma okLog_reset: "okLog c0 s \<Longrightarrow> okLog c0 (i_reset s)"
  by (simp add: i_reset_def Let_def okLog_simps)

lemma okLog_processResult: "okLog c0 s \<Longrightarrow> okLog c0 (processResult now s)"
  by (simp add: processResult_def Let_def okLog_simps)

lemma okLog_startUserListening: "okLog c0 s \<Longrightarrow> okLog c0 (startUserListening now ok s)"
  by (simp add: startUserListening_def i_resetSilenceTimer_def Let_def okLog_simps okLog_reset)

lemma okLog_detectInterrupt: "okLog c0 s \<Longrightarrow> okLog c0 (detectInterrupt now v ok s)"
  by (simp add: detectInterrupt_def okLog_simps okLog_startUserListening)

lemma okLog_stop: "okLog c0 s \<Longrightarrow> okLog c0 (i_stop s)"
  by (simp add: i_stop_def i_cleanup_def Let_def okLog_simps)

lemma okLog_step: "okLog c0 s \<Longrightarrow> okLog c0 (ivi_step now e s)"
  by (cases e)
     (simp_all add: i_onstart_def i_onresult_def i_onend_def i_resetSilenceTimer_def
        setAISpeaking_def i_onerror_def i_start_def startInterruptDetection_def Let_def
        okLog_simps okLog_reset okLog_processResult okLog_detectInterrupt okLog_stop
        split: option.splits list.splits)

lemma okLog_run: "okLog c0 s \<Longrightarrow> okLog c0 (ivi_run evs s)"
  by (induction evs arbitrary: s) (auto simp: okLog_step)

text \<open>
  C10. The status-change callback of InterruptibleVoiceInput fires only on a change of the
  status. For every sequence of calls of \<open>updateStatus\<close>, and for every sequence of events
  the instance handles, from every state, the status at the start followed by the statuses
  the callback is invoked with has no two equal neighbours. So no two consecutive status
  events carry the same value, and an update to the status that is already current emits
  nothing.
\<close>

theorem updateStatus_no_repeat:
  "distinct_adj (i_currentStatus s #
      statusEvents (i_effects (updateStatuses sts (s\<lparr>i_effects := []\<rparr>))))
   \<and> distinct_adj (i_currentStatus s #
      statusEvents (i_effects (ivi_run evs (s\<lparr>i_effects := []\<rparr>))))"
  using updateStatuses_trace [of sts "s\<lparr>i_effects := []\<rparr>"]
    okLog_run [of "i_currentStatus s" "s\<lparr>i_effects := []\<rparr>" evs]
  by (auto simp: okLog_def)

section \<open>Idempotent finalize\<close>

lemma completions_append: "completions (xs @ ys) = completions xs @ completions ys"
  by (induction xs rule: completions.induct) simp_all

lemma speechEnds_append: "speechEnds (xs @ ys) = speechEnds xs @ speechEnds ys"
  by (induction xs rule: speechEnds.induct) simp_all

lemma s_complete_idle: "\<not> s_isListening s \<Longrightarrow> s_complete now s = s"
  by (simp add: s_complete_def)

lemma s_complete_stops: "\<not> s_isListening (s_complete now s)"
  by (simp add: s_complete_def s_clearTimers_def s_emit_def Let_def)

lemma s_complete_effects:
  "s_effects (s_complete now s) = s_effects s @
     (if s_isListening s
      then (if s_recognition s then [S_RecStop] else [])
           @ (if trim (s_finalTranscript s) \<noteq> [] then [S_OnComplete (trim (s_finalTranscript s))] else [])
           @ [S_OnStop]
      else [])"
  by (simp add: s_complete_def s_clearTimers_def s_emit_def Let_def)

lemma s_trigger_complete: "s_trigger now tr s = s_complete now s"
  by (cases tr) (simp_all add: s_stop_def s_onend_def)

lemma s_triggers_idle: "\<not> s_isListening s \<Longrightarrow> s_triggers trs s = s"
  by (induction trs arbitrary: s) (auto simp: s_trigger_complete s_complete_idle)

lemma svi_step_idle:
  "\<not> s_isListening s \<Longrightarrow> e \<noteq> S_RecOnStart \<Longrightarrow>
     \<not> s_isListening (svi_step now e s) \<and>
     completions (s_effects (svi_step now e s)) = completions (s_effects s)"
  by (cases e)
     (auto simp: s_onresult_def s_onend_def s_onerror_def s_stop_def s_start_def s_abort_def
        s_complete_def s_resetSilenceTimer_def s_clearTimers_def s_emit_def Let_def
        completions_append split: option.splits list.splits)

lemma svi_run_idle:
  "\<not> s_isListening s \<Longrightarrow> \<forall>e\<in>set evs. snd e \<noteq> S_RecOnStart \<Longrightarrow>
     completions (s_effects (svi_run evs s)) = completions (s_effects s)"
proof (induction evs arbitrary: s)
  case Nil
  show ?case by simp
next
  case (Cons a evs)
  obtain now e where a: "a = (now, e)" by (cases a)
  with Cons.prems have e: "e \<noteq> S_RecOnStart" by simp
  from svi_step_idle [OF Cons.prems(1) e]
  have 1: "\<not> s_isListening (svi_step now e s)"
    and 2: "completions (s_effects (svi_step now e s)) = completions (s_effects s)" by auto
  from Cons.prems have "\<forall>e\<in>set evs. snd e \<noteq> S_RecOnStart" by simp
  from Cons.IH [OF 1 this] 2 show ?case by (simp add: a)
qed

lemma processResult_busy: "i_isProcessing s \<Longrightarrow> processResult now s = s"
  by (simp add: processResult_def)

lemma processResult_sets: "i_isProcessing (processResult now s)"
  by (simp add: processResult_def updateStatus_def i_emit_def Let_def)

lemma processResult_speechEnds:
  "speechEnds (i_effects (processResult now s)) = speechEnds (i_effects s) @
     (if \<not> i_isProcessing s \<and> trim (i_finalTranscript s) \<noteq> []
      then [trim (i_finalTranscript s)] else [])"
  by (simp add: processResult_def updateStatus_def i_emit_def Let_def speechEnds_append)

lemma processResult_resetTimers:
  "i_resetTimers (processResult now s) =
     i_resetTimers s @ (if i_isProcessing s then [] else [now + 2000])"
  by (simp add: processResult_def updateStatus_def i_emit_def Let_def)

lemma i_trigger_processResult: "i_trigger now tr s = processResult now s"
  by (cases tr) (simp_all add: i_onend_def)

lemma i_triggers_busy: "i_isProcessing s \<Longrightarrow> i_triggers trs s = s"
  by (induction trs arbitrary: s) (auto simp: i_trigger_processResult processResult_busy)

lemma ivi_step_busy:
  "i_isProcessing s \<Longrightarrow> \<not> endsProcessing e \<Longrightarrow>
     i_isProcessing (ivi_step now e s) \<and>
     speechEnds (i_effects (ivi_step now e s)) = speechEnds (i_effects s)"
  by (cases e)
     (auto simp: i_onstart_def i_onresult_def i_onend_def processResult_def detectInterrupt_def
        startInterruptDetection_def i_start_def i_stop_def i_cleanup_def
        setAISpeaking_def updateStatus_def i_resetSilenceTimer_def i_emit_def Let_def
        speechEnds_append split: option.splits)

lemma ivi_run_busy:
  "i_isProcessing s \<Longrightarrow> \<forall>e\<in>set evs. \<not> endsProcessing (snd e) \<Longrightarrow>
     speechEnds (i_effects (ivi_run evs s)) = speechEnds (i_effects s)"
proof (induction evs arbitrary: s)
  case Nil
  show ?case by simp
next
  case (Cons a evs)
  obtain now e where a: "a = (now, e)" by (cases a)
  with Cons.prems have e: "\<not> endsProcessing e" by simp
  from ivi_step_busy [OF Cons.prems(1) e]
  have 1: "i_isProcessing (ivi_step now e s)"
    and 2: "speechEnds (i_effects (ivi_step now e s)) = speechEnds (i_effects s)" by auto
  from Cons.prems have "\<forall>e\<in>set evs. \<not> endsProcessing (snd e)" by simp
  from Cons.IH [OF 1 this] 2 show ?case by (simp add: a)
qed

text \<open>
  C1, as stated, fails in InterruptibleVoiceInput. The guard of \<open>processResult\<close> is
  \<open>isProcessing\<close>, which \<open>reset\<close> clears 2000 ms after a finalize and at every
  recognition error, whether or not the recognition session has ended. In one session (one
  \<open>recognition.start()\<close>) the silence timeout finalizes with \<open>hi\<close> at 2500 ms, the
  reset runs at 4500 ms, a late final result arrives at 4600 ms, and the recognizer's end
  event at 4700 ms finalizes again: a second \<open>onUserSpeechEnd\<close> is emitted. With an
  error at 2600 ms between the silence timeout and the end event, the finalize path runs
  twice (two \<open>recognition.stop()\<close>, two reset timeouts).
\<close>

theorem finalize_twice_in_one_session:
  "i_effects (ivi_run [(0, I_Frame 0.5 True), (10, I_OnStart),
       (500, I_OnResult (finalResult ''hi'')), (2500, I_SilenceFire), (4500, I_ResetFire 0 True),
       (4600, I_OnResult (finalResult ''there'')), (4700, I_OnEnd)] ivi_detecting)
     = [StatusChange Detecting, UserSpeakingDetected, UserSpeechStart, I_RecStart,
        StatusChange Listening, StatusChange Processing, I_RecStop, UserSpeechEnd (js ''hi''),
        StatusChange Detecting, StatusChange Processing, I_RecStop, UserSpeechEnd (js ''there'')]
   \<and> speechEnds (i_effects (ivi_run [(0, I_Frame 0.5 True), (10, I_OnStart),
       (500, I_OnResult (finalResult ''hi'')), (2500, I_SilenceFire), (4500, I_ResetFire 0 True),
       (4600, I_OnResult (finalResult ''there'')), (4700, I_OnEnd)] ivi_detecting))
     = [js ''hi'', js ''there'']
   \<and> i_effects (ivi_run [(0, I_Frame 0.5 True), (10, I_OnStart),
       (500, I_OnResult (finalResult ''hi'')), (2500, I_SilenceFire),
       (2600, I_OnError (js ''network'')), (2700, I_OnEnd)] ivi_detecting)
     = [StatusChange Detecting, UserSpeakingDetected, UserSpeechStart, I_RecStart,
        StatusChange Listening, StatusChange Processing, I_RecStop, UserSpeechEnd (js ''hi''),
        IviError (js ''network''), StatusChange Detecting, StatusChange Processing, I_RecStop]
   \<and> i_resetTimers (ivi_run [(0, I_Frame 0.5 True), (10, I_OnStart),
       (500, I_OnResult (finalResult ''hi'')), (2500, I_SilenceFire),
       (2600, I_OnError (js ''network'')), (2700, I_OnEnd)] ivi_detecting)
     = [4500, 4700]"
  by (simp add: string_defs ivi_defs Let_def)

text \<open>
  C1, amended. In SimpleVoiceInput the finalize path runs once per turn, whatever the
  order in which the silence timeout, the overall timeout and the recognizer's end event
  arrive: after a first trigger every later trigger leaves the state and the log as they
  are, the log of the whole sequence of triggers is the log of one run of \<open>complete\<close>
  (one \<open>recognition.stop()\<close>, at most one completion callback, one \<open>onStop\<close>), and
  no second completion is reported before the recognizer's next start event. In
  InterruptibleVoiceInput, which has no overall timeout, the same holds for the silence
  timeout and the end event as long as \<open>isProcessing\<close> stays set, that is until
  \<open>reset\<close> runs, by the 2000 ms timeout of \<open>processResult\<close> or by a recognition
  error: until then every later trigger is ignored, one timeout is scheduled, and no second
  utterance is reported.
\<close>

theorem finalize_once:
  "s_triggers trs (s_trigger now tr s) = s_trigger now tr s
   \<and> s_effects (s_triggers ((now, tr) # trs) s) = s_effects s @
       (if s_isListening s
        then (if s_recognition s then [S_RecStop] else [])
             @ (if trim (s_finalTranscript s) \<noteq> [] then [S_OnComplete (trim (s_finalTranscript s))] else [])
             @ [S_OnStop]
        else [])
   \<and> ((\<forall>e\<in>set evs. snd e \<noteq> S_RecOnStart) \<longrightarrow>
        completions (s_effects (svi_run evs (s_trigger now tr s)))
          = completions (s_effects (s_trigger now tr s)))
   \<and> i_triggers trs' (i_trigger now' tr' u) = i_trigger now' tr' u
   \<and> speechEnds (i_effects (i_triggers ((now', tr') # trs') u)) = speechEnds (i_effects u) @
       (if \<not> i_isProcessing u \<and> trim (i_finalTranscript u) \<noteq> []
        then [trim (i_finalTranscript u)] else [])
   \<and> i_resetTimers (i_triggers ((now', tr') # trs') u) =
       i_resetTimers u @ (if i_isProcessing u then [] else [now' + 2000])
   \<and> ((\<forall>e\<in>set evs'. \<not> endsProcessing (snd e)) \<longrightarrow>
        speechEnds (i_effects (ivi_run evs' (i_trigger now' tr' u)))
          = speechEnds (i_effects (i_trigger now' tr' u)))"
proof -
  have a: "s_triggers trs (s_trigger now tr s) = s_trigger now tr s"
    by (simp add: s_trigger_complete s_triggers_idle s_complete_stops)
  have b: "i_triggers trs' (i_trigger now' tr' u) = i_trigger now' tr' u"
    by (simp add: i_trigger_processResult i_triggers_busy processResult_sets)
  have c: "(\<forall>e\<in>set evs. snd e \<noteq> S_RecOnStart) \<longrightarrow>
        completions (s_effects (svi_run evs (s_trigger now tr s)))
          = completions (s_effects (s_trigger now tr s))"
    by (simp add: s_trigger_complete svi_run_idle s_complete_stops)
  have d: "(\<forall>e\<in>set evs'. \<not> endsProcessing (snd e)) \<longrightarrow>
        speechEnds (i_effects (ivi_run evs' (i_trigger now' tr' u)))
          = speechEnds (i_effects (i_trigger now' tr' u))"
    by (simp add: i_trigger_processResult ivi_run_busy processResult_sets)
  have g: "s_effects (s_triggers ((now, tr) # trs) s) = s_effects s @
       (if s_isListening s
        then (if s_recognition s then [S_RecStop] else [])
             @ (if trim (s_finalTranscript s) \<noteq> [] then [S_OnComplete (trim (s_finalTranscript s))] else [])
             @ [S_OnStop]
        else [])"
    using a by (simp only: s_triggers.simps s_trigger_complete s_complete_effects)
  have f: "i_triggers ((now', tr') # trs') u = processResult now' u"
    using b by (simp add: i_trigger_processResult)
  have h: "speechEnds (i_effects (i_triggers ((now', tr') # trs') u)) = speechEnds (i_effects u) @
       (if \<not> i_isProcessing u \<and> trim (i_finalTranscript u) \<noteq> []
        then [trim (i_finalTranscript u)] else [])"
    by (simp only: f processResult_speechEnds)
  have k: "i_resetTimers (i_triggers ((now', tr') # trs') u) =
       i_resetTimers u @ (if i_isProcessing u then [] else [now' + 2000])"
    by (simp only: f processResult_resetTimers)
  show ?thesis by (intro conjI a g c b h k d)
qed

theorem finalize_once_witness:
  "list_all (\<lambda>e. snd e \<noteq> S_RecOnStart)
     [(2600, S_RecOnResult (finalResult ''late'')), (2700, S_RecOnEnd), (8000, S_TimeoutFire)]
   \<and> s_effects (s_triggers [(2500, S_SilenceTimeout), (2700, S_PlatformEnd), (8000, S_MaxTimeout)]
        (svi_run [(0, S_RecOnStart), (500, S_RecOnResult (finalResult ''hi''))] svi_init))
      = [S_OnStart, S_OnTranscript (js ''hi'') True, S_RecStop, S_OnComplete (js ''hi''), S_OnStop]
   \<and> completions (s_effects (svi_run
        [(2600, S_RecOnResult (finalResult ''late'')), (2700, S_RecOnEnd), (8000, S_TimeoutFire)]
        (s_trigger 2500 S_SilenceTimeout
          (svi_run [(0, S_RecOnStart), (500, S_RecOnResult (finalResult ''hi''))] svi_init))))
      = [js ''hi'']
   \<and> list_all (\<lambda>e. \<not> endsProcessing (snd e))
        [(2600, I_OnResult (finalResult ''late'')), (2700, I_OnEnd), (2800, I_Frame 0.5 True)]
   \<and> speechEnds (i_effects (i_triggers [(2500, I_SilenceTimeout), (2700, I_PlatformEnd)]
        (ivi_run [(0, I_Frame 0.5 True), (10, I_OnStart), (500, I_OnResult (finalResult ''hi''))]
           ivi_detecting)))
      = [js ''hi'']
   \<and> speechEnds (i_effects (ivi_run
        [(2600, I_OnResult (finalResult ''late'')), (2700, I_OnEnd), (2800, I_Frame 0.5 True)]
        (i_trigger 2500 I_SilenceTimeout
          (ivi_run [(0, I_Frame 0.5 True), (10, I_OnStart), (500, I_OnResult (finalResult ''hi''))]
             ivi_detecting))))
      = [js ''hi'']"
  using finalize_once [of "[(2700, S_PlatformEnd), (8000, S_MaxTimeout)]" 2500 S_SilenceTimeout
      "svi_run [(0, S_RecOnStart), (500, S_RecOnResult (finalResult ''hi''))] svi_init"
      "[(2600, S_RecOnResult (finalResult ''late'')), (2700, S_RecOnEnd), (8000, S_TimeoutFire)]"
      "[(2700, I_PlatformEnd)]" 2500 I_SilenceTimeout
      "ivi_run [(0, I_Frame 0.5 True), (10, I_OnStart), (500, I_OnResult (finalResult ''hi''))]
         ivi_detecting"
      "[(2600, I_OnResult (finalResult ''late'')), (2700, I_OnEnd), (2800, I_Frame 0.5 True)]"]
  by (simp add: string_defs svi_defs ivi_defs Let_def)

section \<open>Completion at the recognizer's end event\<close>

text \<open>
  C2, as stated, fails: when the accumulated final text is empty after trimming, the
  completion callback is skipped. A session that starts and ends with no text reports
  nothing, in SimpleVoiceInput (\<open>onComplete\<close>) and in InterruptibleVoiceInput
  (\<open>onUserSpeechEnd\<close>).
\<close>

theorem empty_completion_skipped:
  "completions (s_effects (svi_run [(0, S_RecOnStart), (100, S_RecOnEnd)] svi_init)) = []
   \<and> S_OnComplete [] \<notin> set (s_effects (svi_run [(0, S_RecOnStart), (100, S_RecOnEnd)] svi_init))
   \<and> speechEnds (i_effects (ivi_run [(0, I_Frame 0.5 True), (10, I_OnStart), (100, I_OnEnd)] ivi_detecting)) = []
   \<and> UserSpeechEnd [] \<notin> set (i_effects (ivi_run [(0, I_Frame 0.5 True), (10, I_OnStart), (100, I_OnEnd)] ivi_detecting))"
  by (simp add: string_defs svi_defs ivi_defs Let_def)

text \<open>
  C2, amended. At the recognizer's end event a session that is not yet finalized invokes
  its completion callback once, with the accumulated final text trimmed, when that text
  is not empty; when it is empty the callback is skipped (SimpleVoiceInput still calls
  \<open>recognition.stop()\<close> and \<open>onStop\<close>). A session that is already finalized reports
  nothing more.
\<close>

theorem natural_end_completion:
  "s_effects (svi_step now S_RecOnEnd s) = s_effects s @
       (if s_isListening s
        then (if s_recognition s then [S_RecStop] else [])
             @ (if trim (s_finalTranscript s) \<noteq> [] then [S_OnComplete (trim (s_finalTranscript s))] else [])
             @ [S_OnStop]
        else [])
   \<and> completions (s_effects (svi_step now S_RecOnEnd s)) = completions (s_effects s) @
       (if s_isListening s \<and> trim (s_finalTranscript s) \<noteq> [] then [trim (s_finalTranscript s)] else [])
   \<and> speechEnds (i_effects (ivi_step now' I_OnEnd u)) = speechEnds (i_effects u) @
       (if \<not> i_isProcessing u \<and> trim (i_finalTranscript u) \<noteq> []
        then [trim (i_finalTranscript u)] else [])"
  by (simp add: s_onend_def s_complete_effects completions_append i_onend_def processResult_speechEnds)

section \<open>Completion on enough final text\<close>

lemma s_complete_finalTranscript: "s_finalTranscript (s_complete now s) = s_finalTranscript s"
  by (simp add: s_complete_def s_clearTimers_def s_emit_def Let_def)

lemma s_onresult_finalTranscript:
  "s_finalTranscript (s_onresult now ev s) = s_finalTranscript s @ newFinalOf ev"
  by (simp add: s_onresult_def s_complete_finalTranscript s_resetSilenceTimer_def s_emit_def Let_def)

text \<open>
  C9, as stated, fails when the session is no longer listening. The silence timeout has
  finalized a session that had only interim text; a final result of 11 characters arrives
  at 2600 ms. The transcript callback is invoked, but \<open>complete\<close> returns at its guard:
  there is no \<open>recognition.stop()\<close>, no completion callback and no \<open>onStop\<close>, and the
  silence timeout and the end event that follow report nothing either.
\<close>

theorem late_final_text_not_reported:
  "s_effects (svi_run [(0, S_RecOnStart), (500, S_RecOnResult (interimResult ''hello'')),
       (2500, S_SilenceFire), (2600, S_RecOnResult (finalResult ''hello world''))] svi_init)
     = [S_OnStart, S_OnTranscript (js ''hello'') False, S_RecStop, S_OnStop,
        S_OnTranscript (js ''hello world'') True]
   \<and> length (trim (s_finalTranscript (svi_run [(0, S_RecOnStart),
       (500, S_RecOnResult (interimResult ''hello'')), (2500, S_SilenceFire),
       (2600, S_RecOnResult (finalResult ''hello world''))] svi_init))) = 11
   \<and> completions (s_effects (svi_run [(0, S_RecOnStart),
       (500, S_RecOnResult (interimResult ''hello'')), (2500, S_SilenceFire),
       (2600, S_RecOnResult (finalResult ''hello world'')), (4600, S_SilenceFire),
       (4700, S_RecOnEnd)] svi_init)) = []"
  by (simp add: string_defs svi_defs Let_def)

text \<open>
  C9, amended. In SimpleVoiceInput a result event that leaves the trimmed accumulated
  final transcript longer than 5 characters finalizes the session at once when the session
  is listening: the session stops listening, both timers are cleared, and after the
  transcript callback the handler calls \<open>recognition.stop()\<close>, the completion callback
  with the trimmed transcript and \<open>onStop\<close>, and schedules the restart, all within the
  handling of that event. When the session is not listening (it was finalized, or an error
  or \<open>abort\<close> ended it), the handler only invokes the transcript callback and re-arms the
  silence timer: nothing is stopped, completed or scheduled.
\<close>

theorem enough_final_text_completes:
  assumes "5 < length (trim (s_finalTranscript (svi_step now (S_RecOnResult ev) s)))"
  shows "if s_isListening s
    then \<not> s_isListening (svi_step now (S_RecOnResult ev) s)
      \<and> s_timeoutTimer (svi_step now (S_RecOnResult ev) s) = None
      \<and> s_silenceTimer (svi_step now (S_RecOnResult ev) s) = None
      \<and> s_restartTimers (svi_step now (S_RecOnResult ev) s) = s_restartTimers s @ [now + 3000]
      \<and> s_effects (svi_step now (S_RecOnResult ev) s) = s_effects s @
         [S_OnTranscript (trim (s_finalTranscript s @ newFinalOf ev @ interimOf ev)) (newFinalOf ev \<noteq> [])]
         @ (if s_recognition s then [S_RecStop] else [])
         @ [S_OnComplete (trim (s_finalTranscript s @ newFinalOf ev)), S_OnStop]
    else \<not> s_isListening (svi_step now (S_RecOnResult ev) s)
      \<and> s_timeoutTimer (svi_step now (S_RecOnResult ev) s) = s_timeoutTimer s
      \<and> s_silenceTimer (svi_step now (S_RecOnResult ev) s) =
           (if newFinalOf ev \<noteq> [] then Some (now + s_silenceTimeout s)
            else if interimOf ev \<noteq> [] then Some (now + s_silenceTimeout s)
            else s_silenceTimer s)
      \<and> s_restartTimers (svi_step now (S_RecOnResult ev) s) = s_restartTimers s
      \<and> s_effects (svi_step now (S_RecOnResult ev) s) = s_effects s @
         [S_OnTranscript (trim (s_finalTranscript s @ newFinalOf ev @ interimOf ev)) (newFinalOf ev \<noteq> [])]"
proof -
  from assms have len: "5 < length (trim (s_finalTranscript s @ newFinalOf ev))"
    by (simp add: s_onresult_finalTranscript)
  then have ne: "trim (s_finalTranscript s @ newFinalOf ev) \<noteq> []" by auto
  show ?thesis
    using len ne
    by (cases "newFinalOf ev = []"; cases "s_isListening s")
       (simp_all add: s_onresult_def s_complete_def s_resetSilenceTimer_def s_clearTimers_def
          s_emit_def Let_def)
qed

theorem enough_final_text_completes_witness:
  "s_isListening (svi_run [(0, S_RecOnStart)] svi_init)
   \<and> 5 < length (trim (s_finalTranscript (svi_step 500 (S_RecOnResult (finalResult ''hello world''))
           (svi_run [(0, S_RecOnStart)] svi_init))))
   \<and> s_effects (svi_step 500 (S_RecOnResult (finalResult ''hello world''))
           (svi_run [(0, S_RecOnStart)] svi_init))
      = [S_OnStart, S_OnTranscript (js ''hello world'') True, S_RecStop,
         S_OnComplete (js ''hello world''), S_OnStop]
   \<and> \<not> s_isListening (svi_run [(0, S_RecOnStart), (2000, S_SilenceFire)] svi_init)
   \<and> 5 < length (trim (s_finalTranscript (svi_step 2100 (S_RecOnResult (finalResult ''hello world''))
           (svi_run [(0, S_RecOnStart), (2000, S_SilenceFire)] svi_init))))
   \<and> s_effects (svi_step 2100 (S_RecOnResult (finalResult ''hello world''))
           (svi_run [(0, S_RecOnStart), (2000, S_SilenceFire)] svi_init))
      = [S_OnStart, S_RecStop, S_OnStop, S_OnTranscript (js ''hello world'') True]"
proof -
  have b: "5 < length (trim (s_finalTranscript (svi_step 500 (S_RecOnResult (finalResult ''hello world''))
           (svi_run [(0, S_RecOnStart)] svi_init))))"
    by (simp add: string_defs svi_defs Let_def)
  have c: "5 < length (trim (s_finalTranscript (svi_step 2100 (S_RecOnResult (finalResult ''hello world''))
           (svi_run [(0, S_RecOnStart), (2000, S_SilenceFire)] svi_init))))"
    by (simp add: string_defs svi_defs Let_def)
  show ?thesis
    using b c enough_final_text_completes [OF b] enough_final_text_completes [OF c]
    by (simp add: string_defs svi_defs Let_def)
qed

section \<open>The silence countdown\<close>

text \<open>
  C7, as stated, fails in SimpleVoiceInput: a final fragment that brings the accumulated
  text over 5 characters does not restart the countdown, it finalizes at once and clears
  the timers. With fragments at 0, 500 and 1800 ms, the last one final, the utterance is
  reported at 1800 ms and nothing is due at 3800 ms.
\<close>

theorem final_text_ends_countdown:
  "s_silenceTimer (svi_run [(0, S_RecOnStart), (0, S_RecOnResult (interimResult ''hello'')),
         (500, S_RecOnResult (interimResult ''hello wor'')),
         (1800, S_RecOnResult (finalResult ''hello world''))] svi_init) \<noteq> Some 3800
   \<and> s_effects (svi_run [(0, S_RecOnStart), (0, S_RecOnResult (interimResult ''hello'')),
         (500, S_RecOnResult (interimResult ''hello wor'')),
         (1800, S_RecOnResult (finalResult ''hello world''))] svi_init)
      = [S_OnStart, S_OnTranscript (js ''hello'') False, S_OnTranscript (js ''hello wor'') False,
         S_OnTranscript (js ''hello world'') True, S_RecStop, S_OnComplete (js ''hello world''),
         S_OnStop]
   \<and> s_effects (svi_run [(0, S_RecOnStart), (0, S_RecOnResult (interimResult ''hello'')),
         (500, S_RecOnResult (interimResult ''hello wor'')),
         (1800, S_RecOnResult (finalResult ''hello world'')), (3800, S_SilenceFire)] svi_init)
     = s_effects (svi_run [(0, S_RecOnStart), (0, S_RecOnResult (interimResult ''hello'')),
         (500, S_RecOnResult (interimResult ''hello wor'')),
         (1800, S_RecOnResult (finalResult ''hello world''))] svi_init)"
  by (simp add: string_defs svi_defs Let_def)


lemma i_onresult_fields:
  "i_silenceTimer (i_onresult t ev u) = Some (t + i_silenceTimeout u)"
  "i_silenceTimeout (i_onresult t ev u) = i_silenceTimeout u"
  "i_effects (i_onresult t ev u) = i_effects u"
  by (simp_all add: i_onresult_def i_resetSilenceTimer_def Let_def)

lemma ivi_run_results:
  "evs \<noteq> [] \<Longrightarrow> \<forall>e\<in>set evs. isResult (snd e) \<Longrightarrow>
     i_silenceTimer (ivi_run evs u) = Some (fst (last evs) + i_silenceTimeout u)
     \<and> i_effects (ivi_run evs u) = i_effects u"
proof (induction evs arbitrary: u)
  case Nil
  then show ?case by simp
next
  case (Cons a evs)
  obtain t e where a: "a = (t, e)" by (cases a)
  with Cons.prems obtain ev where e: "e = I_OnResult ev" by (cases e) auto
  show ?case
  proof (cases "evs = []")
    case True
    then show ?thesis by (simp add: a e i_onresult_fields)
  next
    case False
    from Cons.prems have "\<forall>e\<in>set evs. isResult (snd e)" by simp
    from Cons.IH [OF False this, of "i_onresult t ev u"] False
    show ?thesis by (simp add: a e i_onresult_fields)
  qed
qed

lemma s_onresult_silenceTimer:
  "newFinalOf ev \<noteq> [] \<or> interimOf ev \<noteq> [] \<Longrightarrow>
   \<not> s_isListening s \<or> length (trim (s_finalTranscript s @ newFinalOf ev)) \<le> 5 \<Longrightarrow>
   s_silenceTimer (s_onresult t ev s) = Some (t + s_silenceTimeout s)"
  by (cases "newFinalOf ev = []")
     (auto simp: s_onresult_def s_complete_def s_resetSilenceTimer_def s_emit_def Let_def)

text \<open>
  C7, amended. In InterruptibleVoiceInput every result event restarts the silence
  countdown: after a result event at time \<open>t\<close> the silence timeout is due at
  \<open>t + silenceTimeout\<close>, after a run of result events it is due that long after the last
  one, and no callback has been invoked meanwhile. In SimpleVoiceInput a result event
  restarts it when it carries text and the session is not listening or the trimmed
  accumulated final text has at most 5 characters. In both, the silence callback finalizes
  only when it runs at or after the deadline. With a timeout of 2000 ms and fragments at
  0, 500 and 1800 ms the deadline is 3800 ms.
\<close>

theorem silence_countdown:
  "i_silenceTimer (ivi_step t (I_OnResult ev) u) = Some (t + i_silenceTimeout u)
   \<and> (evs \<noteq> [] \<and> (\<forall>e\<in>set evs. isResult (snd e)) \<longrightarrow>
        i_silenceTimer (ivi_run evs u) = Some (fst (last evs) + i_silenceTimeout u)
        \<and> i_effects (ivi_run evs u) = i_effects u)
   \<and> (i_silenceTimer u = Some d \<longrightarrow>
        ivi_step t I_SilenceFire u =
          (if d \<le> t then processResult t (u\<lparr>i_silenceTimer := None\<rparr>) else u))
   \<and> ((newFinalOf ev \<noteq> [] \<or> interimOf ev \<noteq> [])
        \<and> (\<not> s_isListening s \<or> length (trim (s_finalTranscript s @ newFinalOf ev)) \<le> 5) \<longrightarrow>
        s_silenceTimer (svi_step t (S_RecOnResult ev) s) = Some (t + s_silenceTimeout s))
   \<and> (s_silenceTimer s = Some d \<longrightarrow>
        svi_step t S_SilenceFire s =
          (if d \<le> t then s_complete t (s\<lparr>s_silenceTimer := None\<rparr>) else s))"
  using ivi_run_results [of evs u] s_onresult_silenceTimer [of ev s t]
  by (simp add: i_onresult_fields)


theorem silence_countdown_witness:
  "fragments \<noteq> [] \<and> list_all (\<lambda>e. isResult (snd e)) fragments
   \<and> i_silenceTimer (ivi_run [(0, I_Frame 0.5 True), (0, I_OnStart)] ivi_detecting) = Some 2000
   \<and> interimOf (interimResult ''hello world'') \<noteq> []
   \<and> length (trim (s_finalTranscript (svi_run [(0, S_RecOnStart)] svi_init)
        @ newFinalOf (interimResult ''hello world''))) \<le> 5
   \<and> s_silenceTimer (svi_run [(0, S_RecOnStart)] svi_init) = Some 2000
   \<and> i_silenceTimer (ivi_run fragments (ivi_run [(0, I_Frame 0.5 True), (0, I_OnStart)] ivi_detecting)) = Some 3800
   \<and> speechEnds (i_effects (ivi_run fragments (ivi_run [(0, I_Frame 0.5 True), (0, I_OnStart)] ivi_detecting))) = []
   \<and> speechEnds (i_effects (ivi_run (fragments @ [(3799, I_SilenceFire)])
         (ivi_run [(0, I_Frame 0.5 True), (0, I_OnStart)] ivi_detecting))) = []
   \<and> speechEnds (i_effects (ivi_run (fragments @ [(3800, I_SilenceFire)])
         (ivi_run [(0, I_Frame 0.5 True), (0, I_OnStart)] ivi_detecting))) = [js ''hello world'']
   \<and> s_silenceTimer (svi_step 1800 (S_RecOnResult (interimResult ''hello world''))
         (svi_run [(0, S_RecOnStart)] svi_init)) = Some 3800
   \<and> svi_step 1800 S_SilenceFire (svi_run [(0, S_RecOnStart)] svi_init)
       = svi_run [(0, S_RecOnStart)] svi_init"
  using silence_countdown [of 1800 "interimResult ''hello world''"
      "ivi_run [(0, I_Frame 0.5 True), (0, I_OnStart)] ivi_detecting" fragments 2000
      "svi_run [(0, S_RecOnStart)] svi_init"]
  by (simp add: fragments_def string_defs svi_defs ivi_defs Let_def)


section \<open>Barge-in\<close>

lemma tts_stop_silent: "\<not> tts_isSpeaking (tts_stop t)"
  by (simp add: tts_stop_def tts_isSpeaking_def)

lemma tts_stop_idem: "tts_stop (tts_stop t) = tts_stop t"
  by (simp add: tts_stop_def)

lemma barge_in_effects:
  assumes "0 < i_frames s" "i_isActive s" "i_hasAnalyser s" "\<not> i_isListening s"
    "\<not> i_isProcessing s" "i_interruptSensitivity s < v"
  shows "i_effects (ivi_step now (I_Frame v ok) s) = i_effects s @ UserSpeakingDetected #
         (if i_hasRecognition s
          then UserSpeechStart # I_RecStart #
               (if ok \<or> i_currentStatus s = Detecting then [] else [StatusChange Detecting])
          else [])"
  using assms
  by (simp add: detectInterrupt_def startUserListening_def i_reset_def updateStatus_def
      i_resetSilenceTimer_def i_emit_def Let_def)

lemma detectInterrupt_silent:
  "silentAtStart (drop (length (i_effects s)) (i_effects (detectInterrupt now v ok s))) t"
  by (simp add: detectInterrupt_def startUserListening_def i_reset_def updateStatus_def
      i_resetSilenceTimer_def i_emit_def Let_def tts_stop_silent)

lemma step_silent:
  "silentAtStart (drop (length (i_effects s)) (i_effects (ivi_step now e s))) t"
proof (cases e)
  case (I_ResetFire v ok)
  then show ?thesis
    by (simp add: startInterruptDetection_def detectInterrupt_def startUserListening_def
        i_reset_def updateStatus_def i_resetSilenceTimer_def i_emit_def Let_def
        tts_stop_silent split: list.splits)
next
  case (I_Frame v ok)
  then show ?thesis
    using detectInterrupt_silent [of "s\<lparr>i_frames := i_frames s - 1\<rparr>" now v ok t] by simp
next
  case (I_Start granted v ok)
  then show ?thesis
    by (simp add: i_start_def startInterruptDetection_def detectInterrupt_def
        startUserListening_def i_reset_def updateStatus_def i_resetSilenceTimer_def i_emit_def
        Let_def tts_stop_silent)
qed (simp_all add: i_onstart_def i_onresult_def i_onend_def processResult_def setAISpeaking_def
      i_onerror_def i_stop_def i_cleanup_def i_reset_def
      updateStatus_def i_resetSilenceTimer_def i_emit_def Let_def split: option.splits)

text \<open>
  C3, as stated, fails in two ways. First, a level above the interrupt sensitivity raises
  no signal while the instance is processing: after a finalize at 2500 ms the detection
  loop is not running and \<open>isProcessing\<close> stays set until 4500 ms, so when the assistant
  starts to speak at 2600 ms and the user speaks at 3000 ms, nothing is signalled and no
  session starts. Second, \<open>stop\<close> cancels the utterances handed to the platform, not a
  call of \<open>speakLongText\<close> that is between two chunks: the first chunk ends at 1000 ms,
  the barge-in calls \<open>stop\<close> at 1100 ms, during the pause, and the second chunk is spoken
  from 1300 ms on, while the recognition session started by the barge-in is listening (its
  silence timeout is due at 3100 ms).
\<close>

theorem barge_in_misses_speech:
  "i_isProcessing (ivi_run [(0, I_Frame 0.5 True), (10, I_OnStart),
       (500, I_OnResult (finalResult ''hi'')), (2500, I_SilenceFire),
       (2600, I_SetAISpeaking True)] ivi_detecting)
   \<and> i_frames (ivi_run [(0, I_Frame 0.5 True), (10, I_OnStart),
       (500, I_OnResult (finalResult ''hi'')), (2500, I_SilenceFire),
       (2600, I_SetAISpeaking True)] ivi_detecting) = 0
   \<and> i_interruptSensitivity (ivi_run [(0, I_Frame 0.5 True), (10, I_OnStart),
       (500, I_OnResult (finalResult ''hi'')), (2500, I_SilenceFire),
       (2600, I_SetAISpeaking True)] ivi_detecting) < 0.5
   \<and> ivi_run [(0, I_Frame 0.5 True), (10, I_OnStart),
       (500, I_OnResult (finalResult ''hi'')), (2500, I_SilenceFire),
       (2600, I_SetAISpeaking True), (3000, I_Frame 0.5 True)] ivi_detecting
     = ivi_run [(0, I_Frame 0.5 True), (10, I_OnStart),
       (500, I_OnResult (finalResult ''hi'')), (2500, I_SilenceFire),
       (2600, I_SetAISpeaking True)] ivi_detecting
   \<and> i_effects (ivi_run [(1100, I_Frame 0.5 True), (1110, I_OnStart)] ivi_detecting)
     = [StatusChange Detecting, UserSpeakingDetected, UserSpeechStart, I_RecStart,
        StatusChange Listening]
   \<and> i_isListening (ivi_run [(1100, I_Frame 0.5 True), (1110, I_OnStart)] ivi_detecting)
   \<and> i_silenceTimer (ivi_run [(1100, I_Frame 0.5 True), (1110, I_OnStart)] ivi_detecting)
     = Some 3100
   \<and> tts_isSpeaking (tts_run [(1000, T_UtteranceEnd), (1100, T_Stop), (1300, T_DelayFire)]
        (startLongText 0 (js ''Hello. Bye now'') 8 tts_init))
   \<and> synthQueue (tts_run [(1000, T_UtteranceEnd), (1100, T_Stop), (1300, T_DelayFire)]
        (startLongText 0 (js ''Hello. Bye now'') 8 tts_init)) = [js ''Bye now'']"
proof -
  have a: "ivi_run [(0, I_Frame 0.5 True), (10, I_OnStart),
       (500, I_OnResult (finalResult ''hi'')), (2500, I_SilenceFire),
       (2600, I_SetAISpeaking True)] ivi_detecting
     = ivi_detecting\<lparr>i_isProcessing := True, i_frames := 0, i_resetTimers := [4500],
         i_finalTranscript := js ''hi'',
         i_effects := [StatusChange Detecting, UserSpeakingDetected, UserSpeechStart, I_RecStart,
           StatusChange Listening, StatusChange Processing, I_RecStop, UserSpeechEnd (js ''hi''),
           StatusChange Detecting]\<rparr>"
    by (simp add: string_defs ivi_defs Let_def)
  have b: "ivi_run [(0, I_Frame 0.5 True), (10, I_OnStart),
       (500, I_OnResult (finalResult ''hi'')), (2500, I_SilenceFire),
       (2600, I_SetAISpeaking True), (3000, I_Frame 0.5 True)] ivi_detecting
     = ivi_run [(0, I_Frame 0.5 True), (10, I_OnStart),
       (500, I_OnResult (finalResult ''hi'')), (2500, I_SilenceFire),
       (2600, I_SetAISpeaking True)] ivi_detecting"
    by (simp add: string_defs ivi_defs Let_def)
  have c: "i_effects (ivi_run [(1100, I_Frame 0.5 True), (1110, I_OnStart)] ivi_detecting)
     = [StatusChange Detecting, UserSpeakingDetected, UserSpeechStart, I_RecStart,
        StatusChange Listening]
   \<and> i_isListening (ivi_run [(1100, I_Frame 0.5 True), (1110, I_OnStart)] ivi_detecting)
   \<and> i_silenceTimer (ivi_run [(1100, I_Frame 0.5 True), (1110, I_OnStart)] ivi_detecting)
     = Some 3100"
    by (simp add: ivi_defs Let_def)
  have d: "tts_run [(1000, T_UtteranceEnd), (1100, T_Stop), (1300, T_DelayFire)]
        (startLongText 0 (js ''Hello. Bye now'') 8 tts_init)
      = tts_init\<lparr>currentUtterance := Some (js ''Bye now''), synthQueue := [js ''Bye now''],
          pendingSteps := [Speak (js ''Bye now'')]\<rparr>"
    unfolding hello_start
    by (simp add: tts_speak_def tts_stop_def hello_clean hello_nonblank tts_init_def Let_def)
  have e: "tts_isSpeaking (tts_run [(1000, T_UtteranceEnd), (1100, T_Stop), (1300, T_DelayFire)]
        (startLongText 0 (js ''Hello. Bye now'') 8 tts_init))
   \<and> synthQueue (tts_run [(1000, T_UtteranceEnd), (1100, T_Stop), (1300, T_DelayFire)]
        (startLongText 0 (js ''Hello. Bye now'') 8 tts_init)) = [js ''Bye now'']"
    unfolding d by (simp add: tts_isSpeaking_def tts_init_def)
  have f: "i_isProcessing (ivi_run [(0, I_Frame 0.5 True), (10, I_OnStart),
       (500, I_OnResult (finalResult ''hi'')), (2500, I_SilenceFire),
       (2600, I_SetAISpeaking True)] ivi_detecting)
   \<and> i_frames (ivi_run [(0, I_Frame 0.5 True), (10, I_OnStart),
       (500, I_OnResult (finalResult ''hi'')), (2500, I_SilenceFire),
       (2600, I_SetAISpeaking True)] ivi_detecting) = 0
   \<and> i_interruptSensitivity (ivi_run [(0, I_Frame 0.5 True), (10, I_OnStart),
       (500, I_OnResult (finalResult ''hi'')), (2500, I_SilenceFire),
       (2600, I_SetAISpeaking True)] ivi_detecting) < 0.5"
    unfolding a by (simp add: ivi_detecting_def)
  from f b c e show ?thesis by blast
qed

text \<open>
  C3, amended. When an animation frame of the running detection reads a level above the
  interrupt sensitivity while the instance is active and neither listening nor processing,
  the handler first invokes \<open>onUserSpeakingDetected\<close>, the callback that tells the
  assistant to stop, and only then \<open>onUserSpeechStart\<close> and \<open>recognition.start()\<close>.
  A frame read while the instance is listening or processing signals nothing, and neither
  does a level read with no frame pending. For every event and every state, with
  \<open>TTSService.stop\<close> registered as that callback, the service is not speaking at the call
  of \<open>recognition.start()\<close>: \<open>stop\<close> cancels the queue and the current utterance at
  once, and calling it again changes nothing. \<open>stop\<close> leaves a pending call of
  \<open>speakLongText\<close> and its pause as they are: when the pause runs out, the next chunk is
  spoken.
\<close>

theorem barge_in_order:
  "(0 < i_frames s \<and> i_isActive s \<and> i_hasAnalyser s \<and> \<not> i_isListening s
      \<and> \<not> i_isProcessing s \<and> i_interruptSensitivity s < v \<longrightarrow>
      i_effects (ivi_step now (I_Frame v ok) s) = i_effects s @ UserSpeakingDetected #
         (if i_hasRecognition s
          then UserSpeechStart # I_RecStart #
               (if ok \<or> i_currentStatus s = Detecting then [] else [StatusChange Detecting])
          else []))
   \<and> (i_frames s' = 0 \<or> i_isListening s' \<or> i_isProcessing s' \<longrightarrow>
        i_effects (ivi_step now' (I_Frame v' ok') s') = i_effects s')
   \<and> silentAtStart (drop (length (i_effects s)) (i_effects (ivi_step now e s))) t
   \<and> \<not> tts_isSpeaking (tts_stop t)
   \<and> currentUtterance (tts_stop t) = (if synthesis t then None else currentUtterance t)
   \<and> synthQueue (tts_stop t) = (if synthesis t then [] else synthQueue t)
   \<and> tts_stop (tts_stop t) = tts_stop t
   \<and> pendingSteps (tts_stop t) = pendingSteps t
   \<and> delayTimer (tts_stop t) = delayTimer t
   \<and> (enabled (config t') \<and> synthesis t' \<and> pendingSteps t' = Delay d # Speak c # rest
        \<and> trim c \<noteq> [] \<and> delayTimer t' = Some dl \<and> dl \<le> now'' \<longrightarrow>
        tts_isSpeaking (tts_step now'' T_DelayFire (tts_stop t'))
        \<and> synthQueue (tts_step now'' T_DelayFire (tts_stop t')) = [cleanTextForSpeech c])"
proof -
  have a: "i_frames s' = 0 \<or> i_isListening s' \<or> i_isProcessing s' \<longrightarrow>
        i_effects (ivi_step now' (I_Frame v' ok') s') = i_effects s'"
    by (auto simp: detectInterrupt_def)
  have b: "enabled (config t') \<and> synthesis t' \<and> pendingSteps t' = Delay d # Speak c # rest
        \<and> trim c \<noteq> [] \<and> delayTimer t' = Some dl \<and> dl \<le> now'' \<longrightarrow>
        tts_isSpeaking (tts_step now'' T_DelayFire (tts_stop t'))
        \<and> synthQueue (tts_step now'' T_DelayFire (tts_stop t')) = [cleanTextForSpeech c]"
    by (simp add: tts_stop_def tts_speak_def tts_isSpeaking_def Let_def)
  have c: "pendingSteps (tts_stop t) = pendingSteps t \<and> delayTimer (tts_stop t) = delayTimer t"
    by (simp add: tts_stop_def)
  have d: "(0 < i_frames s \<and> i_isActive s \<and> i_hasAnalyser s \<and> \<not> i_isListening s
      \<and> \<not> i_isProcessing s \<and> i_interruptSensitivity s < v \<longrightarrow>
      i_effects (ivi_step now (I_Frame v ok) s) = i_effects s @ UserSpeakingDetected #
         (if i_hasRecognition s
          then UserSpeechStart # I_RecStart #
               (if ok \<or> i_currentStatus s = Detecting then [] else [StatusChange Detecting])
          else []))
   \<and> silentAtStart (drop (length (i_effects s)) (i_effects (ivi_step now e s))) t
   \<and> \<not> tts_isSpeaking (tts_stop t)
   \<and> currentUtterance (tts_stop t) = (if synthesis t then None else currentUtterance t)
   \<and> synthQueue (tts_stop t) = (if synthesis t then [] else synthQueue t)
   \<and> tts_stop (tts_stop t) = tts_stop t"
    using barge_in_effects [of s v now ok] step_silent [of s now e t]
    by (simp add: tts_stop_silent tts_stop_idem) (simp add: tts_stop_def)
  from a b c d show ?thesis by blast
qed

theorem barge_in_order_witness:
  "0 < i_frames ivi_detecting \<and> i_isActive ivi_detecting \<and> i_hasAnalyser ivi_detecting
   \<and> \<not> i_isListening ivi_detecting \<and> \<not> i_isProcessing ivi_detecting
   \<and> i_interruptSensitivity ivi_detecting < 0.5
   \<and> i_effects (ivi_step 0 (I_Frame 0.5 True) ivi_detecting)
        = [StatusChange Detecting, UserSpeakingDetected, UserSpeechStart, I_RecStart]
   \<and> i_isListening (ivi_run [(0, I_Frame 0.5 True), (10, I_OnStart)] ivi_detecting)
   \<and> i_effects (ivi_step 20 (I_Frame 0.5 True)
        (ivi_run [(0, I_Frame 0.5 True), (10, I_OnStart)] ivi_detecting))
      = i_effects (ivi_run [(0, I_Frame 0.5 True), (10, I_OnStart)] ivi_detecting)
   \<and> tts_isSpeaking (tts_init\<lparr>currentUtterance := Some (js ''Hello''), synthQueue := [js ''Hello'']\<rparr>)
   \<and> silentAtStart [UserSpeakingDetected, UserSpeechStart, I_RecStart]
        (tts_init\<lparr>currentUtterance := Some (js ''Hello''), synthQueue := [js ''Hello'']\<rparr>)
   \<and> enabled (config (tts_init\<lparr>pendingSteps := [Delay 300, Speak (js ''Bye now'')],
          delayTimer := Some 1300\<rparr>))
   \<and> synthesis (tts_init\<lparr>pendingSteps := [Delay 300, Speak (js ''Bye now'')],
          delayTimer := Some 1300\<rparr>)
   \<and> trim (js ''Bye now'') \<noteq> []
   \<and> tts_isSpeaking (tts_step 1300 T_DelayFire (tts_stop
        (tts_init\<lparr>pendingSteps := [Delay 300, Speak (js ''Bye now'')], delayTimer := Some 1300\<rparr>)))"
proof -
  have l: "i_isListening (ivi_run [(0, I_Frame 0.5 True), (10, I_OnStart)] ivi_detecting)"
    by (simp add: ivi_defs Let_def)
  have h: "enabled (config (tts_init\<lparr>pendingSteps := [Delay 300, Speak (js ''Bye now'')],
          delayTimer := Some 1300\<rparr>))
   \<and> synthesis (tts_init\<lparr>pendingSteps := [Delay 300, Speak (js ''Bye now'')],
          delayTimer := Some 1300\<rparr>)"
    by (simp add: tts_init_def)
  have i: "0 < i_frames ivi_detecting \<and> i_isActive ivi_detecting \<and> i_hasAnalyser ivi_detecting
   \<and> \<not> i_isListening ivi_detecting \<and> \<not> i_isProcessing ivi_detecting
   \<and> i_interruptSensitivity ivi_detecting < 0.5 \<and> i_hasRecognition ivi_detecting
   \<and> i_effects ivi_detecting = [StatusChange Detecting]"
    by (simp add: ivi_detecting_def)
  have sp: "tts_isSpeaking (tts_init\<lparr>currentUtterance := Some (js ''Hello''), synthQueue := [js ''Hello'']\<rparr>)"
    by (simp add: tts_init_def tts_isSpeaking_def js_def)
  have sl: "silentAtStart [UserSpeakingDetected, UserSpeechStart, I_RecStart]
        (tts_init\<lparr>currentUtterance := Some (js ''Hello''), synthQueue := [js ''Hello'']\<rparr>)"
    by (simp add: tts_stop_silent)
  show ?thesis
    using barge_in_order [of ivi_detecting "0.5" 0 True
        "ivi_run [(0, I_Frame 0.5 True), (10, I_OnStart)] ivi_detecting" 20 "0.5" True
        "I_Frame 0.5 True"
        "tts_init\<lparr>currentUtterance := Some (js ''Hello''), synthQueue := [js ''Hello'']\<rparr>"
        "tts_init\<lparr>pendingSteps := [Delay 300, Speak (js ''Bye now'')], delayTimer := Some 1300\<rparr>"
        300 "js ''Bye now''" "[]" 1300 1300]
      l h i sp sl hello_nonblank(2)
    by (simp del: ivi_step.simps tts_step.simps)
qed

section \<open>The voice-start signal\<close>

text \<open>
  C4, as stated, fails: the monitors have no edge detection. What stops a second signal
  is the listening session, not the level, so when the session ends while the level is
  still above the threshold the next sample raises the signal again. Every sample below
  is 0.5, above both thresholds, and the signal is raised twice.
\<close>

theorem voice_start_refires:
  "voiceStarts (v_effects (vad_run [(0, V_Frame 0.5 True), (1000, V_RecOnResult (finalResult ''hi'')),
       (1016, V_Frame 0.5 True)] vad_active)) = 2
   \<and> v_threshold vad_active < 0.5
   \<and> speakingDetections (i_effects (ivi_run [(0, I_Frame 0.5 True), (10, I_OnStart),
       (100, I_OnResult (finalResult ''hi'')), (200, I_OnEnd), (2200, I_ResetFire 0.5 True)]
       (ivi_detecting\<lparr>i_effects := []\<rparr>))) = 2
   \<and> i_interruptSensitivity ivi_detecting < 0.5"
  by (simp add: string_defs vad_defs ivi_defs Let_def)


lemma voiceStarts_append: "voiceStarts (xs @ ys) = voiceStarts xs + voiceStarts ys"
  by (induction xs rule: voiceStarts.induct) simp_all

lemma speakingDetections_append:
  "speakingDetections (xs @ ys) = speakingDetections xs + speakingDetections ys"
  by (induction xs rule: speakingDetections.induct) simp_all

lemma vad_frame_starts:
  "voiceStarts (v_effects (vad_step now (V_Frame v ok) s)) = voiceStarts (v_effects s) +
     (if 0 < v_frames s \<and> v_isActive s \<and> v_hasAnalyser s \<and> v_threshold s < v
         \<and> \<not> v_isListening s \<and> v_hasRecognition s then 1 else 0)"
  by (simp add: detectVoice_def v_startListening_def v_stopListening_def v_emit_def Let_def
      voiceStarts_append)

lemma vad_frame_listening:
  "v_isListening (vad_step now (V_Frame v ok) s) =
     (if 0 < v_frames s \<and> v_isActive s \<and> v_hasAnalyser s \<and> v_threshold s < v
         \<and> \<not> v_isListening s \<and> v_hasRecognition s then ok else v_isListening s)"
  by (simp add: detectVoice_def v_startListening_def v_stopListening_def v_emit_def Let_def)

lemma vad_frames_listening:
  "v_isListening s \<Longrightarrow>
     voiceStarts (v_effects (vad_frames now fs s)) = voiceStarts (v_effects s)
     \<and> v_isListening (vad_frames now fs s)"
proof (induction fs arbitrary: s)
  case Nil
  then show ?case by simp
next
  case (Cons f fs)
  obtain v ok where f: "f = (v, ok)" by (cases f)
  from Cons.prems have 1: "v_isListening (vad_step now (V_Frame v ok) s)"
    and 2: "voiceStarts (v_effects (vad_step now (V_Frame v ok) s)) = voiceStarts (v_effects s)"
    by (simp_all add: vad_frame_listening vad_frame_starts del: vad_step.simps)
  from Cons.IH [OF 1] 2 show ?case by (simp add: f)
qed

lemma vad_frames_once:
  "\<forall>f\<in>set fs. snd f \<Longrightarrow>
     voiceStarts (v_effects (vad_frames now fs s)) \<le> voiceStarts (v_effects s) + 1"
proof (induction fs arbitrary: s)
  case Nil
  then show ?case by simp
next
  case (Cons f fs)
  obtain v ok where f: "f = (v, ok)" by (cases f)
  with Cons.prems have ok: ok and rest: "\<forall>f\<in>set fs. snd f" by simp_all
  let ?s' = "vad_step now (V_Frame v ok) s"
  show ?case
  proof (cases "voiceStarts (v_effects ?s') = voiceStarts (v_effects s)")
    case True
    with Cons.IH [OF rest, of ?s'] show ?thesis by (simp add: f)
  next
    case False
    then have fired: "voiceStarts (v_effects ?s') = voiceStarts (v_effects s) + 1"
      and l: "v_isListening ?s'"
      using ok by (auto simp: vad_frame_starts vad_frame_listening simp del: vad_step.simps split: if_splits)
    from vad_frames_listening [OF l, of now fs] fired show ?thesis by (simp add: f)
  qed
qed

lemma ivi_frame_detections:
  "speakingDetections (i_effects (ivi_step now (I_Frame v ok) s)) = speakingDetections (i_effects s) +
     (if 0 < i_frames s \<and> i_isActive s \<and> i_hasAnalyser s \<and> i_interruptSensitivity s < v
         \<and> \<not> i_isListening s \<and> \<not> i_isProcessing s then 1 else 0)"
  by (simp add: detectInterrupt_def startUserListening_def i_reset_def updateStatus_def
      i_resetSilenceTimer_def i_emit_def Let_def speakingDetections_append)

lemma ivi_frame_budget:
  "speakingDetections (i_effects (ivi_step now (I_Frame v ok) s)) + i_frames (ivi_step now (I_Frame v ok) s)
     \<le> speakingDetections (i_effects s) + i_frames s"
  by (simp add: detectInterrupt_def startUserListening_def i_reset_def updateStatus_def
      i_resetSilenceTimer_def i_emit_def Let_def speakingDetections_append)

lemma ivi_frames_budget:
  "speakingDetections (i_effects (ivi_frames now fs s)) + i_frames (ivi_frames now fs s)
     \<le> speakingDetections (i_effects s) + i_frames s"
proof (induction fs arbitrary: s)
  case Nil
  show ?case by simp
next
  case (Cons f fs)
  obtain v ok where f: "f = (v, ok)" by (cases f)
  from Cons.IH [of "ivi_step now (I_Frame v ok) s"] ivi_frame_budget [of now v ok s]
  show ?case by (simp add: f)
qed

text \<open>
  C4, amended. A sample raises the voice-start signal exactly when the detection is
  running, the level is above the threshold and no session is in progress (in
  VoiceActivityDetection: not listening, against \<open>threshold\<close>; in InterruptibleVoiceInput:
  neither listening nor processing, always against \<open>interruptSensitivity\<close>). While
  VoiceActivityDetection is listening no sample raises it, however the level moves, and
  frames whose \<open>recognition.start()\<close> returns raise it at most once. In
  InterruptibleVoiceInput a detection loop stops at its signal, so frames alone raise it
  at most once per running loop. The monitor re-arms when the session ends, whether or
  not the level has dropped.
\<close>

theorem voice_start_guard:
  "voiceStarts (v_effects (vad_step now (V_Frame v ok) s)) = voiceStarts (v_effects s) +
     (if 0 < v_frames s \<and> v_isActive s \<and> v_hasAnalyser s \<and> v_threshold s < v
         \<and> \<not> v_isListening s \<and> v_hasRecognition s then 1 else 0)
   \<and> (v_isListening s \<longrightarrow>
        voiceStarts (v_effects (vad_frames now fs s)) = voiceStarts (v_effects s)
        \<and> v_isListening (vad_frames now fs s))
   \<and> ((\<forall>f\<in>set fs. snd f) \<longrightarrow>
        voiceStarts (v_effects (vad_frames now fs s)) \<le> voiceStarts (v_effects s) + 1)
   \<and> speakingDetections (i_effects (ivi_step now (I_Frame v ok) u)) = speakingDetections (i_effects u) +
     (if 0 < i_frames u \<and> i_isActive u \<and> i_hasAnalyser u \<and> i_interruptSensitivity u < v
         \<and> \<not> i_isListening u \<and> \<not> i_isProcessing u then 1 else 0)
   \<and> speakingDetections (i_effects (ivi_frames now fs u)) \<le> speakingDetections (i_effects u) + i_frames u"
  using vad_frames_listening [of s now fs] vad_frames_once [of fs now s]
    ivi_frames_budget [of now fs u]
  by (simp only: vad_frame_starts ivi_frame_detections) simp


theorem voice_start_guard_witness:
  "v_isListening (vad_step 0 (V_Frame 0.5 True) vad_active)
   \<and> list_all snd [(0.5, True), (0.001, True), (0.5, True)]
   \<and> voiceStarts (v_effects (vad_frames 16 [(0.5, True), (0.001, True), (0.5, True)]
        (vad_step 0 (V_Frame 0.5 True) vad_active))) = 1
   \<and> voiceStarts (v_effects (vad_frames 0 [(0.5, True), (0.001, True), (0.5, True)] vad_active)) = 1
   \<and> speakingDetections (i_effects (ivi_frames 0 [(0.5, True), (0.001, True), (0.5, True)]
        (ivi_detecting\<lparr>i_effects := []\<rparr>))) = 1"
  using voice_start_guard [of 16 "0.5" True "vad_step 0 (V_Frame 0.5 True) vad_active"
      "[(0.5, True), (0.001, True), (0.5, True)]" ivi_detecting]
    voice_start_guard [of 0 "0.5" True vad_active
      "[(0.5, True), (0.001, True), (0.5, True)]" "ivi_detecting\<lparr>i_effects := []\<rparr>"]
  by (simp add: vad_defs ivi_defs Let_def)


section \<open>Permission denied\<close>

text \<open>
  C5, as stated, fails in SimpleVoiceInput, which has no disabled state. A turn ends at
  2000 ms and schedules the restart for 5000 ms; a start requested at 2500 ms is denied
  with \<open>not-allowed\<close>; at 5000 ms the scheduled restart calls \<open>recognition.start()\<close>
  again, with no call from outside after the denial.
\<close>

theorem simple_restarts_after_denial:
  "s_effects (svi_run [(0, S_RecOnStart), (2000, S_SilenceFire), (2500, S_Start),
       (2600, S_RecOnError (js ''not-allowed'')), (5000, S_RestartFire)] svi_init)
     = [S_OnStart, S_RecStop, S_OnStop, S_RecStart, S_OnError (js ''not-allowed''), S_RecStart]
   \<and> s_restartTimers (svi_run [(0, S_RecOnStart), (2000, S_SilenceFire), (2500, S_Start),
       (2600, S_RecOnError (js ''not-allowed''))] svi_init) = [5000]"
  by (simp add: string_defs svi_defs Let_def)

lemma recStarts_append: "recStarts (xs @ ys) = recStarts xs + recStarts ys"
  by (induction xs rule: recStarts.induct) simp_all

lemma handleError_denied:
  "\<not> r_isEnabled (r_handleError (js ''not-allowed'') s)"
  "r_effects (r_handleError (js ''not-allowed'') s) = r_effects s @ [R_OnListeningEnd,
     R_OnError (js ''Microphone access denied. Please enable microphone permissions in your browser settings.'')]"
  by (simp_all add: r_handleError_def r_cleanup_def r_emit_def Let_def)

lemma rvi_step_disabled:
  "\<not> r_isEnabled s \<Longrightarrow> \<not> isEnable e \<Longrightarrow>
     \<not> r_isEnabled (rvi_step now e s)
     \<and> recStarts (r_effects (rvi_step now e s)) = recStarts (r_effects s)"
  by (cases e)
     (auto simp: r_onstart_def r_onresult_def r_cleanup_def r_handleResult_def r_handleError_def
        r_startTimeout_def r_startListening_def r_stop_def r_abort_def r_disable_def r_emit_def
        Let_def recStarts_append split: option.splits)

lemma rvi_run_disabled:
  "\<not> r_isEnabled s \<Longrightarrow> \<forall>e\<in>set evs. \<not> isEnable (snd e) \<Longrightarrow>
     \<not> r_isEnabled (rvi_run evs s)
     \<and> recStarts (r_effects (rvi_run evs s)) = recStarts (r_effects s)"
proof (induction evs arbitrary: s)
  case Nil
  then show ?case by simp
next
  case (Cons a evs)
  obtain now e where a: "a = (now, e)" by (cases a)
  with Cons.prems have e: "\<not> isEnable e" by simp
  from rvi_step_disabled [OF Cons.prems(1) e]
  have 1: "\<not> r_isEnabled (rvi_step now e s)"
    and 2: "recStarts (r_effects (rvi_step now e s)) = recStarts (r_effects s)" by auto
  from Cons.prems have "\<forall>e\<in>set evs. \<not> isEnable (snd e)" by simp
  from Cons.IH [OF 1 this] 2 show ?case by (simp add: a)
qed

text \<open>
  C5, amended. In ReliableVoiceInput the error \<open>not-allowed\<close> disables the instance and
  reports the denial once. While it is disabled \<open>startListening\<close> does nothing, and
  whatever happens, as long as \<open>enable()\<close> is not called, the instance stays disabled
  and \<open>recognition.start()\<close> is not called again. After \<open>enable()\<close> a
  \<open>startListening\<close> starts the recognizer. SimpleVoiceInput has no disabled state: its
  error handler stops listening, clears both timers, reports the error and schedules no
  restart of its own.
\<close>

theorem permission_denied_disables:
  "\<not> r_isEnabled (rvi_step now (R_RecOnError (js ''not-allowed'')) s)
   \<and> r_effects (rvi_step now (R_RecOnError (js ''not-allowed'')) s) = r_effects s @ [R_OnListeningEnd,
       R_OnError (js ''Microphone access denied. Please enable microphone permissions in your browser settings.'')]
   \<and> ((\<forall>e\<in>set evs. \<not> isEnable (snd e)) \<longrightarrow>
        \<not> r_isEnabled (rvi_run evs (rvi_step now (R_RecOnError (js ''not-allowed'')) s))
        \<and> recStarts (r_effects (rvi_run evs (rvi_step now (R_RecOnError (js ''not-allowed'')) s)))
            = recStarts (r_effects s))
   \<and> (\<not> r_isEnabled s' \<longrightarrow> rvi_step now' (R_StartListening ok) s' = s')
   \<and> r_isEnabled (rvi_step now' R_Enable s')
   \<and> (r_isEnabled s' \<and> r_supported s' \<and> r_recognition s' \<and> \<not> r_isListening s' \<longrightarrow>
        recStarts (r_effects (rvi_step now' (R_StartListening ok) s')) = recStarts (r_effects s') + 1)
   \<and> \<not> s_isListening (svi_step now (S_RecOnError err) t)
   \<and> s_timeoutTimer (svi_step now (S_RecOnError err) t) = None
   \<and> s_silenceTimer (svi_step now (S_RecOnError err) t) = None
   \<and> s_restartTimers (svi_step now (S_RecOnError err) t) = s_restartTimers t
   \<and> s_effects (svi_step now (S_RecOnError err) t) = s_effects t @ [S_OnError err]"
proof -
  have d: "\<not> r_isEnabled (r_handleError (js ''not-allowed'') s)" by (rule handleError_denied)
  have "(\<forall>e\<in>set evs. \<not> isEnable (snd e)) \<longrightarrow>
        \<not> r_isEnabled (rvi_run evs (r_handleError (js ''not-allowed'') s))
        \<and> recStarts (r_effects (rvi_run evs (r_handleError (js ''not-allowed'') s)))
            = recStarts (r_effects s)"
    using rvi_run_disabled [OF d, of evs] by (simp add: handleError_denied recStarts_append)
  then show ?thesis
    by (simp add: handleError_denied r_startListening_def r_enable_def r_emit_def Let_def
        recStarts_append s_onerror_def s_clearTimers_def s_emit_def)
qed


theorem permission_denied_disables_witness:
  "list_all (\<lambda>e. \<not> isEnable (snd e))
      [(100, R_StartListening True), (200, R_RecOnEnd), (300, R_StartListening True)]
   \<and> r_effects (rvi_run
        [(100, R_StartListening True), (200, R_RecOnEnd), (300, R_StartListening True)]
        (rvi_step 50 (R_RecOnError (js ''not-allowed'')) (rvi_run [(0, R_StartListening True)] rvi_init)))
      = [R_RecStart, R_OnListeningEnd,
         R_OnError (js ''Microphone access denied. Please enable microphone permissions in your browser settings.''),
         R_OnListeningEnd]
   \<and> \<not> r_isEnabled (rvi_step 50 (R_RecOnError (js ''not-allowed'')) (rvi_run [(0, R_StartListening True)] rvi_init))
   \<and> r_isEnabled rvi_init \<and> r_supported rvi_init \<and> r_recognition rvi_init \<and> \<not> r_isListening rvi_init
   \<and> recStarts (r_effects (rvi_step 0 (R_StartListening True) rvi_init)) = 1
   \<and> recStarts (r_effects (rvi_run [(400, R_Enable), (500, R_StartListening True)]
        (rvi_step 50 (R_RecOnError (js ''not-allowed'')) (rvi_run [(0, R_StartListening True)] rvi_init)))) = 2"
  using permission_denied_disables [of 50 "rvi_run [(0, R_StartListening True)] rvi_init"
      "[(100, R_StartListening True), (200, R_RecOnEnd), (300, R_StartListening True)]"
      "rvi_step 50 (R_RecOnError (js ''not-allowed'')) (rvi_run [(0, R_StartListening True)] rvi_init)"
      100 True]
    permission_denied_disables [of 50 "rvi_run [(0, R_StartListening True)] rvi_init" "[]"
      rvi_init 0 True]
  by (simp add: rvi_defs Let_def js_def)


section \<open>Properties of TTSService\<close>

text \<open>
  C8. For every real input the three setters store the input clamped into the documented
  range: \<open>setRate\<close> into 0.1 to 10, \<open>setPitch\<close> into 0 to 2, \<open>setVolume\<close> into 0 to 1.
  The setters are total: no input is rejected, an input below the range is stored as the
  lower bound, one above it as the upper bound, and one inside it unchanged.
\<close>

theorem setters_clamp:
  "rate (config (setRate x t)) = max 0.1 (min 10 x)
   \<and> rate (config (setRate x t)) = (if x < 0.1 then 0.1 else if 10 < x then 10 else x)
   \<and> 0.1 \<le> rate (config (setRate x t)) \<and> rate (config (setRate x t)) \<le> 10
   \<and> pitch (config (setPitch x t)) = max 0 (min 2 x)
   \<and> pitch (config (setPitch x t)) = (if x < 0 then 0 else if 2 < x then 2 else x)
   \<and> 0 \<le> pitch (config (setPitch x t)) \<and> pitch (config (setPitch x t)) \<le> 2
   \<and> volume (config (setVolume x t)) = max 0 (min 1 x)
   \<and> volume (config (setVolume x t)) = (if x < 0 then 0 else if 1 < x then 1 else x)
   \<and> 0 \<le> volume (config (setVolume x t)) \<and> volume (config (setVolume x t)) \<le> 1"
  by (simp add: setRate_def setPitch_def setVolume_def max_def min_def)

subsection \<open>Chunked speech\<close>




end
